theory Spec2Isabelle
  imports Main
begin

section \<open>JavaScript values, exceptions and the browser environment\<close>

text \<open>
  The conversation handler is browser JavaScript working on module-level variables and
  talking to the server through \<^verbatim>\<open>fetch\<close>. Values that cross the network are JSON;
  \<open>JUndefined\<close> is what reading an absent property gives. Numbers are restricted to
  integers, which is all the handler ever inspects.
\<close>

datatype jsval =
    JUndefined
  | JNull
  | JBool bool
  | JNum int
  | JStr string
  | JArr "jsval list"
  | JObj "(string \<times> jsval) list"

text \<open>JavaScript truthiness, as used by \<^verbatim>\<open>if (x)\<close>, \<^verbatim>\<open>!x\<close> and \<^verbatim>\<open>x || y\<close>.\<close>

fun truthy :: "jsval \<Rightarrow> bool" where
  "truthy JUndefined = False"
| "truthy JNull = False"
| "truthy (JBool b) = b"
| "truthy (JNum n) = (n \<noteq> 0)"
| "truthy (JStr s) = (s \<noteq> [])"
| "truthy (JArr xs) = True"
| "truthy (JObj kvs) = True"

datatype exn =
    Error string
  | TypeError
  | SyntaxError
  | NetworkError

text \<open>One captured answer, as pushed by the questioning sequence.\<close>

record turn =
  t_question :: string
  t_timestamp :: nat
  t_response :: string

text \<open>
  The requests the handler sends. The start request carries \<^verbatim>\<open>requestData\<close>, of which
  the channel name and the agent's token are kept (the prompt texts and vendor keys are
  fixed for the session); the leave request carries the agent id interpolated into its
  URL; the analysis request carries the joined answers and the turns.
\<close>

datatype request =
    GetToken string string string
  | PostCleanup string
  | PostStart string jsval
  | PostLeave jsval
  | PostAnalyze string "turn list"
  | PostTTS string

text \<open>
  A response has its status line, its raw text (\<^verbatim>\<open>response.text()\<close>) and the value that
  text parses to as JSON (\<open>None\<close> when it is not JSON, where \<^verbatim>\<open>response.json()\<close> and
  \<^verbatim>\<open>JSON.parse\<close> throw).
\<close>

record response =
  status :: nat
  statusText :: string
  body_text :: string
  body_json :: "jsval option"

definition ok :: "response \<Rightarrow> bool" where
  "ok r = (200 \<le> status r \<and> status r \<le> 299)"

datatype fetch_result = Rejects | Responds response

text \<open>
  The fixed texts the handler logs and shows, by name; \<open>message_text\<close> gives the words.
  \<open>string_of_nat\<close> is the decimal rendering a template string gives a number.
\<close>

definition digit_char :: "nat \<Rightarrow> char" where
  "digit_char d = ''0123456789'' ! d"

fun string_of_nat :: "nat \<Rightarrow> string" where
  "string_of_nat n =
     (if n < 10 then [digit_char n]
      else string_of_nat (n div 10) @ [digit_char (n mod 10)])"

declare string_of_nat.simps [simp del]

datatype message =
    No_active_agent_to_stop
  | Stopping_Convo_AI
  | Convo_AI_stopped_successfully
  | Error_stopping_Convo_AI
  | Left_channel_successfully
  | Error_leaving_channel
  | Ending_session
  | Session_Ended
  | Error_ending_conversation
  | Connected
  | Error_ending_session
  | Cleaned_up_existing_AI_agent
  | No_existing_agent_to_clean_up
  | Stopped_conflicting_agent
  | Started_successfully_after_retry
  | Retry_failed
  | Checking_for_existing_AI_agents
  | Starting_Vet_Convo_AI
  | Detected_conflicting_agent
  | Started_successfully
  | Convo_AI_error
  | Failed_to_start_AI_assistant
  | Error_generating_triage_summary
  | Audio_monitoring_error
  | OpenAI_TTS_error
  | Welcome_Starting_triage_assessment
  | Question_of_5 nat
  | Listening_for_your_answer
  | Error_with_question nat
  | Triage_assessment_complete
  | Triage_complete

fun message_text :: "message \<Rightarrow> string" where
  "message_text No_active_agent_to_stop = ''No active agent to stop''"
| "message_text Stopping_Convo_AI = ''Stopping Convo AI...''"
| "message_text Convo_AI_stopped_successfully = ''Convo AI stopped successfully''"
| "message_text Error_stopping_Convo_AI = ''Error stopping Convo AI:''"
| "message_text Left_channel_successfully = ''Left channel successfully''"
| "message_text Error_leaving_channel = ''Error leaving channel:''"
| "message_text Ending_session = ''Ending session...''"
| "message_text Session_Ended = ''Session Ended''"
| "message_text Error_ending_conversation = ''Error ending conversation:''"
| "message_text Connected = ''Connected''"
| "message_text Error_ending_session = ''Error ending session. Please try again.''"
| "message_text Cleaned_up_existing_AI_agent = ''Cleaned up existing AI agent''"
| "message_text No_existing_agent_to_clean_up = ''No existing agent to clean up''"
| "message_text Stopped_conflicting_agent = ''Stopped conflicting agent, retrying in 2 seconds...''"
| "message_text Started_successfully_after_retry = ''Vet Convo AI started successfully after retry!''"
| "message_text Retry_failed = ''Retry failed:''"
| "message_text Checking_for_existing_AI_agents = ''Checking for existing AI agents...''"
| "message_text Starting_Vet_Convo_AI = ''Starting Vet Convo AI...''"
| "message_text Detected_conflicting_agent = ''Detected conflicting agent, attempting to stop it...''"
| "message_text Started_successfully = ''Vet Convo AI started successfully!''"
| "message_text Convo_AI_error = ''Convo AI error:''"
| "message_text Failed_to_start_AI_assistant = ''Failed to start AI assistant. Please try again.''"
| "message_text Error_generating_triage_summary = ''Error generating triage summary:''"
| "message_text Audio_monitoring_error = ''Audio monitoring error:''"
| "message_text OpenAI_TTS_error = ''OpenAI TTS error:''"
| "message_text Welcome_Starting_triage_assessment = ''Welcome! Starting triage assessment...''"
| "message_text (Question_of_5 i) = ''Question '' @ string_of_nat i @ '' of 5''"
| "message_text Listening_for_your_answer = ''Listening for your answer...''"
| "message_text (Error_with_question i) = ''Error with question '' @ string_of_nat i @ '':''"
| "message_text Triage_assessment_complete = ''Triage assessment complete! You can continue the conversation or end the session.''"
| "message_text Triage_complete = ''Triage complete! You can now ask additional questions.''"

text \<open>The states of \<^verbatim>\<open>updateAudioIndicator\<close> and the page of the redirect.\<close>

datatype indicator = Speaking | Listening | Inactive

datatype page = Summary_page

datatype event =
    Fetch request
  | Delay nat
  | TrackStop nat
  | TrackClose nat
  | ClientLeave
  | AssignTaskID jsval
  | ConsoleLog message
  | ConsoleError message
  | Toast message
  | Indicator indicator
  | Loading message
  | Status message
  | Speak jsval
  | Play
  | Display jsval
  | Redirect page

text \<open>
  One listening window of the microphone monitor: whether building the audio graph
  throws, and the animation frames the browser delivers, each with the time in
  milliseconds since the window opened and the analyser's byte frequency data.
\<close>

record window =
  monitor_throws :: bool
  frames :: "(nat \<times> nat list) list"

record session_data =
  sd_petInfo :: jsval
  sd_startTime :: "nat option"
  sd_endTime :: nat
  sd_duration :: nat
  sd_triageSummary :: "jsval option"
  sd_mockSummary :: bool

text \<open>
  The module's variables, the \<^verbatim>\<open>responses\<close> array of the questioning sequence (kept in
  the state because its pushes survive a caught exception), the session storage entries,
  the effects performed so far (\<open>trace\<close>, oldest first), and what the environment
  will answer:
  \<open>inbox\<close> holds the outcomes of the coming \<^verbatim>\<open>fetch\<close> calls in order (an exhausted
  script answers like a dropped connection), \<open>playbacks\<close> whether each coming audio
  playback ends normally, \<open>windows\<close> the coming listening windows, and \<open>leave_rejects\<close>
  whether \<^verbatim>\<open>client.leave()\<close> fails.
\<close>

record world =
  client :: bool
  channel :: "string option"
  audioTrack :: "nat option"
  videoTrack :: "nat option"
  remoteUsers :: "nat list"
  agoraConvoTaskID :: jsval
  conversationStartTime :: "nat option"
  petInfo :: jsval
  responses :: "turn list"
  vetai_triage_responses :: "turn list option"
  vetai_triage_summary :: "jsval option"
  vetai_session_data :: "session_data option"
  vetai_triage_ready :: bool
  trace :: "event list"
  clock :: nat
  inbox :: "fetch_result list"
  playbacks :: "bool list"
  windows :: "window list"
  leave_rejects :: bool

section \<open>Computations with exceptions\<close>

text \<open>
  An \<^verbatim>\<open>async\<close> function is a state transformer that ends in a value or in a thrown
  exception; \<^verbatim>\<open>await\<close> is sequencing. Every external promise is taken to settle.
\<close>

type_synonym 'a js = "world \<Rightarrow> (exn + 'a) \<times> world"

definition ret_js :: "'a \<Rightarrow> 'a js" where
  "ret_js x = (\<lambda>w. (Inr x, w))"

definition throw_js :: "exn \<Rightarrow> 'a js" where
  "throw_js e = (\<lambda>w. (Inl e, w))"

definition bind_js :: "'a js \<Rightarrow> ('a \<Rightarrow> 'b js) \<Rightarrow> 'b js" where
  "bind_js m f = (\<lambda>w. case m w of (Inl e, w') \<Rightarrow> (Inl e, w') | (Inr x, w') \<Rightarrow> f x w')"

definition try_catch :: "'a js \<Rightarrow> (exn \<Rightarrow> 'a js) \<Rightarrow> 'a js" where
  "try_catch m h = (\<lambda>w. case m w of (Inl e, w') \<Rightarrow> h e w' | (Inr x, w') \<Rightarrow> (Inr x, w'))"

definition emit :: "event \<Rightarrow> unit js" where
  "emit e = (\<lambda>w. (Inr (), w\<lparr>trace := trace w @ [e]\<rparr>))"

text \<open>\<^verbatim>\<open>await new Promise(resolve => setTimeout(resolve, ms))\<close>\<close>

definition delay :: "nat \<Rightarrow> unit js" where
  "delay ms = (\<lambda>w. (Inr (), w\<lparr>trace := trace w @ [Delay ms], clock := clock w + ms\<rparr>))"

definition fetch :: "request \<Rightarrow> response js" where
  "fetch rq = (\<lambda>w.
     let w' = w\<lparr>trace := trace w @ [Fetch rq], inbox := tl (inbox w)\<rparr>
     in case inbox w of
          [] \<Rightarrow> (Inl NetworkError, w')
        | Rejects # rest \<Rightarrow> (Inl NetworkError, w')
        | Responds r # rest \<Rightarrow> (Inr r, w'))"

definition response_json :: "response \<Rightarrow> jsval js" where
  "response_json r = (case body_json r of None \<Rightarrow> throw_js SyntaxError | Some v \<Rightarrow> ret_js v)"

text \<open>
  Reading a property: a \<^verbatim>\<open>TypeError\<close> on \<^verbatim>\<open>undefined\<close> and \<^verbatim>\<open>null\<close>, the bound value
  on an object that has the key, \<^verbatim>\<open>undefined\<close> otherwise.
\<close>

fun get_prop :: "jsval \<Rightarrow> string \<Rightarrow> jsval js" where
  "get_prop JUndefined k = throw_js TypeError"
| "get_prop JNull k = throw_js TypeError"
| "get_prop (JObj kvs) k = ret_js (case map_of kvs k of None \<Rightarrow> JUndefined | Some v \<Rightarrow> v)"
| "get_prop v k = ret_js JUndefined"

text \<open>\<^verbatim>\<open>err || response.statusText\<close>\<close>

definition or_text :: "string \<Rightarrow> string \<Rightarrow> string" where
  "or_text a b = (if a \<noteq> [] then a else b)"

definition assign_agoraConvoTaskID :: "jsval \<Rightarrow> unit js" where
  "assign_agoraConvoTaskID v =
     (\<lambda>w. (Inr (), w\<lparr>agoraConvoTaskID := v, trace := trace w @ [AssignTaskID v]\<rparr>))"

section \<open>Stopping the agent and leaving the channel\<close>

definition stopConvoAI :: "unit js" where
  "stopConvoAI =
     try_catch
       (\<lambda>w. if \<not> truthy (agoraConvoTaskID w)
             then emit (ConsoleLog No_active_agent_to_stop) w
             else bind_js (emit (ConsoleLog Stopping_Convo_AI)) (\<lambda>_.
                  bind_js (fetch (PostLeave (agoraConvoTaskID w))) (\<lambda>res.
                  if \<not> ok res
                  then throw_js (Error (or_text (body_text res) (statusText res)))
                  else bind_js (emit (ConsoleLog Convo_AI_stopped_successfully)) (\<lambda>_.
                       assign_agoraConvoTaskID (JStr [])))) w)
       (\<lambda>error. emit (ConsoleError Error_stopping_Convo_AI))"

text \<open>
  \<^verbatim>\<open>track.stop(); track.close(); localTracks.x = null\<close>, guarded by the null check.
  The SDK's \<^verbatim>\<open>stop\<close> and \<^verbatim>\<open>close\<close> are synchronous and do not throw.
\<close>

definition release_audioTrack :: "unit js" where
  "release_audioTrack = (\<lambda>w.
     case audioTrack w of
       None \<Rightarrow> (Inr (), w)
     | Some t \<Rightarrow> (Inr (), w\<lparr>trace := trace w @ [TrackStop t, TrackClose t], audioTrack := None\<rparr>))"

definition release_videoTrack :: "unit js" where
  "release_videoTrack = (\<lambda>w.
     case videoTrack w of
       None \<Rightarrow> (Inr (), w)
     | Some t \<Rightarrow> (Inr (), w\<lparr>trace := trace w @ [TrackStop t, TrackClose t], videoTrack := None\<rparr>))"

definition client_leave :: "unit js" where
  "client_leave = (\<lambda>w.
     let w' = w\<lparr>trace := trace w @ [ClientLeave]\<rparr>
     in if leave_rejects w then (Inl (Error ''leave rejected''), w') else (Inr (), w'))"

definition leaveChannel :: "unit js" where
  "leaveChannel =
     try_catch
       (bind_js release_audioTrack (\<lambda>_.
        bind_js release_videoTrack (\<lambda>_.
        bind_js stopConvoAI (\<lambda>_.
        bind_js (\<lambda>w. if client w then client_leave w else ret_js () w) (\<lambda>_.
        bind_js (\<lambda>w. (Inr (), w\<lparr>remoteUsers := []\<rparr>)) (\<lambda>_.
        emit (ConsoleLog Left_channel_successfully)))))))
       (\<lambda>error. emit (ConsoleError Error_leaving_channel))"

text \<open>
  \<^verbatim>\<open>Math.round((Date.now() - conversationStartTime.getTime()) / 1000)\<close> on a
  non-negative difference.
\<close>

definition round_seconds :: "nat \<Rightarrow> nat" where
  "round_seconds ms = (ms + 500) div 1000"

text \<open>
  The session record keeps whether the demonstration summary of \<^verbatim>\<open>generateMockSummary\<close>
  was attached, not its fixed text.
\<close>

definition endConversation :: "unit js" where
  "endConversation =
     bind_js (emit (Loading Ending_session)) (\<lambda>_.
     try_catch
       (bind_js leaveChannel (\<lambda>_.
        bind_js (emit (Status Session_Ended)) (\<lambda>_.
        bind_js (emit (Indicator Inactive)) (\<lambda>_.
        bind_js (\<lambda>w. (Inr (), w\<lparr>
            vetai_session_data := Some \<lparr>
              sd_petInfo = petInfo w,
              sd_startTime = conversationStartTime w,
              sd_endTime = clock w,
              sd_duration = (case conversationStartTime w of
                               Some t \<Rightarrow> round_seconds (clock w - t) | None \<Rightarrow> 0),
              sd_triageSummary = vetai_triage_summary w,
              sd_mockSummary = (case vetai_triage_summary w of
                                  Some v \<Rightarrow> \<not> truthy v | None \<Rightarrow> True)\<rparr>,
            vetai_triage_ready :=
              (case vetai_triage_summary w of
                 Some v \<Rightarrow> truthy v \<or> vetai_triage_ready w | None \<Rightarrow> vetai_triage_ready w)\<rparr>)) (\<lambda>_.
        emit (Redirect Summary_page))))))
       (\<lambda>error. bind_js (emit (ConsoleError Error_ending_conversation)) (\<lambda>_.
                 bind_js (emit (Loading Connected)) (\<lambda>_.
                 emit (Toast Error_ending_session)))))"

section \<open>Starting the agent\<close>

text \<open>The best-effort cleanup that precedes the first create request.\<close>

definition cleanup_existing :: "string \<Rightarrow> unit js" where
  "cleanup_existing ch =
     try_catch
       (bind_js (fetch (PostCleanup ch)) (\<lambda>cleanupRes.
        if ok cleanupRes
        then bind_js (emit (ConsoleLog Cleaned_up_existing_AI_agent)) (\<lambda>_. delay 1000)
        else ret_js ()))
       (\<lambda>e. emit (ConsoleLog No_existing_agent_to_clean_up))"

definition set_conversationStartTime :: "unit js" where
  "set_conversationStartTime = (\<lambda>w. (Inr (), w\<lparr>conversationStartTime := Some (clock w)\<rparr>))"

text \<open>
  The inner \<^verbatim>\<open>try\<close> of the 409 branch. \<open>Some b\<close> is \<^verbatim>\<open>return b\<close> out of the whole
  function; \<open>None\<close> is falling out of the block, after which the caller throws.
\<close>

definition retry_after_conflict :: "response \<Rightarrow> string \<Rightarrow> jsval \<Rightarrow> bool option js" where
  "retry_after_conflict response ch aiAgentToken =
     try_catch
       (bind_js (response_json response) (\<lambda>errorData.
        bind_js (get_prop errorData ''agent_id'') (\<lambda>agent_id.
        if truthy agent_id
        then bind_js (fetch (PostLeave agent_id)) (\<lambda>_.
             bind_js (emit (ConsoleLog Stopped_conflicting_agent)) (\<lambda>_.
             bind_js (delay 2000) (\<lambda>_.
             bind_js (fetch (PostStart ch aiAgentToken)) (\<lambda>retryResponse.
             if \<not> ok retryResponse
             then throw_js (Error (or_text (body_text retryResponse) (statusText retryResponse)))
             else bind_js (response_json retryResponse) (\<lambda>retryData.
                  bind_js (get_prop retryData ''agent_id'') (\<lambda>retry_id.
                  bind_js (assign_agoraConvoTaskID retry_id) (\<lambda>_.
                  bind_js set_conversationStartTime (\<lambda>_.
                  bind_js (emit (ConsoleLog Started_successfully_after_retry)) (\<lambda>_.
                  ret_js (Some True))))))))))
        else ret_js None)))
       (\<lambda>retryError. bind_js (emit (ConsoleError Retry_failed)) (\<lambda>_. ret_js None))"

definition startVetConvoAI :: "bool js" where
  "startVetConvoAI =
     try_catch
       (\<lambda>w. case channel w of
               None \<Rightarrow> throw_js (Error ''Client not initialized'') w
             | Some ch \<Rightarrow>
                 if \<not> client w \<or> ch = []
                 then throw_js (Error ''Client not initialized'') w
                 else
                  (bind_js (fetch (GetToken ch ''10001'' ''publisher'')) (\<lambda>aiTokenRes.
                   bind_js (response_json aiTokenRes) (\<lambda>aiTokenData.
                   bind_js (get_prop aiTokenData ''token'') (\<lambda>aiAgentToken.
                   bind_js (emit (ConsoleLog Checking_for_existing_AI_agents)) (\<lambda>_.
                   bind_js (cleanup_existing ch) (\<lambda>_.
                   bind_js (emit (ConsoleLog Starting_Vet_Convo_AI)) (\<lambda>_.
                   bind_js (fetch (PostStart ch aiAgentToken)) (\<lambda>response.
                   if \<not> ok response
                   then bind_js
                          (if status response = 409
                           then bind_js (emit (ConsoleLog Detected_conflicting_agent)) (\<lambda>_.
                                retry_after_conflict response ch aiAgentToken)
                           else ret_js None) (\<lambda>returned.
                        case returned of
                          Some b \<Rightarrow> ret_js b
                        | None \<Rightarrow> throw_js (Error (or_text (body_text response) (statusText response))))
                   else bind_js (response_json response) (\<lambda>responseData.
                        bind_js (get_prop responseData ''agent_id'') (\<lambda>agent_id.
                        bind_js (assign_agoraConvoTaskID agent_id) (\<lambda>_.
                        bind_js set_conversationStartTime (\<lambda>_.
                        bind_js (emit (ConsoleLog Started_successfully)) (\<lambda>_.
                        ret_js True))))))))))))) w)
       (\<lambda>error. bind_js (emit (ConsoleError Convo_AI_error)) (\<lambda>_.
                 bind_js (emit (Toast Failed_to_start_AI_assistant)) (\<lambda>_.
                 ret_js False)))"

section \<open>The token endpoint\<close>

text \<open>
  A string that the code reads character by character is a list of UTF-16 code units;
  \<open>code_units\<close> gives the code units of a Latin-1 literal.
\<close>

type_synonym code_units = "nat list"

definition code_units :: "string \<Rightarrow> code_units" where
  "code_units s = map of_char s"

text \<open>
  The characters that \<^verbatim>\<open>parseInt\<close> and \<^verbatim>\<open>trim\<close> strip: white space (tab, vertical
  tab, form feed, space, no-break space, the byte order mark and the space separators of
  Unicode) and the line terminators.
\<close>

definition is_space :: "nat \<Rightarrow> bool" where
  "is_space c = (c \<in> set [0x09, 0x0A, 0x0B, 0x0C, 0x0D, 0x20, 0xA0, 0x1680, 0x2028, 0x2029,
                            0x202F, 0x205F, 0x3000, 0xFEFF]
                 \<or> (0x2000 \<le> c \<and> c \<le> 0x200A))"

definition digit_val :: "nat \<Rightarrow> nat" where
  "digit_val n =
     (if 48 \<le> n \<and> n \<le> 57 then n - 48
      else if 97 \<le> n \<and> n \<le> 122 then n - 87
      else if 65 \<le> n \<and> n \<le> 90 then n - 55
      else 36)"

definition is_digit :: "nat \<Rightarrow> nat \<Rightarrow> bool" where
  "is_digit R c = (digit_val c < R)"

text \<open>
  A JavaScript number, as far as the endpoint can produce one: \<^verbatim>\<open>NaN\<close>, an integer that
  a double holds exactly (of magnitude at most \<open>2 ^ 53\<close>), or \<open>Rounded\<close>, the double nearest
  to a larger integer (possibly an infinity), whose value is not modelled.
\<close>

datatype number = NaN | Integer int | Rounded

definition to_number :: "int \<Rightarrow> number" where
  "to_number v = (if \<bar>v\<bar> \<le> 2 ^ 53 then Integer v else Rounded)"

text \<open>
  \<^verbatim>\<open>parseInt\<close> with no radix: leading white space is skipped, a sign is read, a
  \<^verbatim>\<open>0x\<close> prefix selects radix 16, and the longest run of digits is the value, rounded to
  a double.
\<close>

definition parseInt :: "code_units \<Rightarrow> number" where
  "parseInt str =
     (let s = dropWhile is_space str;
          neg = (take 1 s = code_units ''-'');
          s1 = (if take 1 s = code_units ''-'' \<or> take 1 s = code_units ''+'' then drop 1 s else s);
          hex = (take 2 s1 = code_units ''0x'' \<or> take 2 s1 = code_units ''0X'');
          s2 = (if hex then drop 2 s1 else s1);
          R = (if hex then 16 else 10);
          Z = takeWhile (is_digit R) s2
      in if Z = [] then NaN
         else to_number ((if neg then - 1 else 1) * int (foldl (\<lambda>a c. a * R + digit_val c) 0 Z)))"

text \<open>\<^verbatim>\<open>x || 0\<close> on a number: \<^verbatim>\<open>NaN\<close> and zero are falsy.\<close>

fun or_zero :: "number \<Rightarrow> number" where
  "or_zero NaN = Integer 0"
| "or_zero (Integer n) = (if n = 0 then Integer 0 else Integer n)"
| "or_zero Rounded = Rounded"

datatype rtc_role = PUBLISHER | SUBSCRIBER

text \<open>
  The arguments of \<^verbatim>\<open>RtcTokenBuilder.buildTokenWithUid\<close>, in its order. The builder is
  the \<^verbatim>\<open>agora-token\<close> package; the handler is modelled over any builder.
\<close>

record token_args =
  arg_appId :: string
  arg_appCertificate :: string
  arg_channelName :: string
  arg_uid :: number
  arg_role :: rtc_role
  arg_privilegeExpiredTs :: nat

text \<open>
  The query parameters; \<open>uid\<close>, which \<^verbatim>\<open>parseInt\<close> reads, is kept as code units.
\<close>

record token_query =
  q_channelName :: "string option"
  q_uid :: "code_units option"
  q_role :: "string option"

record server_env =
  AGORA_APPID :: "string option"
  AGORA_APPCERTIFICATE :: "string option"

datatype http_reply = Reply nat jsval

text \<open>
  An environment variable or query parameter is absent (\<open>None\<close>) or a string; \<^verbatim>\<open>!x\<close>
  holds of the absent and of the empty one.
\<close>

definition api_token ::
    "(token_args \<Rightarrow> string) \<Rightarrow> server_env \<Rightarrow> nat \<Rightarrow> token_query \<Rightarrow> http_reply" where
  "api_token buildTokenWithUid env now_ms q =
     (case (AGORA_APPID env, AGORA_APPCERTIFICATE env) of
        (Some appId, Some appCertificate) \<Rightarrow>
          if appId = [] \<or> appCertificate = []
          then Reply 500 (JObj [(''error'', JStr ''Missing Agora credentials'')])
          else (case q_channelName q of
                  None \<Rightarrow> Reply 400 (JObj [(''error'', JStr ''channelName is required'')])
                | Some channelName \<Rightarrow>
                    if channelName = []
                    then Reply 400 (JObj [(''error'', JStr ''channelName is required'')])
                    else
                      let userUid = or_zero (parseInt (case q_uid q of
                                                         None \<Rightarrow> code_units ''undefined''
                                                       | Some u \<Rightarrow> u));
                          tokenRole = (if q_role q = Some ''subscriber'' then SUBSCRIBER else PUBLISHER);
                          expirationTimeInSeconds = 3600;
                          currentTimestamp = now_ms div 1000;
                          privilegeExpiredTs = currentTimestamp + expirationTimeInSeconds;
                          token = buildTokenWithUid \<lparr>
                            arg_appId = appId,
                            arg_appCertificate = appCertificate,
                            arg_channelName = channelName,
                            arg_uid = userUid,
                            arg_role = tokenRole,
                            arg_privilegeExpiredTs = privilegeExpiredTs\<rparr>
                      in Reply 200 (JObj [(''token'', JStr token)]))
      | _ \<Rightarrow> Reply 500 (JObj [(''error'', JStr ''Missing Agora credentials'')]))"

section \<open>The triage summary\<close>

fun join :: "string \<Rightarrow> string list \<Rightarrow> string" where
  "join sep [] = []"
| "join sep [x] = x"
| "join sep (x # y # ys) = x @ sep @ join sep (y # ys)"

definition turn_js :: "turn \<Rightarrow> jsval" where
  "turn_js r = JObj [(''question'', JStr (t_question r)),
                     (''timestamp'', JNum (int (t_timestamp r))),
                     (''response'', JStr (t_response r))]"

text \<open>
  Own property keys are enumerated with the array indices (canonical decimal numerals
  below \<open>2 ^ 32 - 1\<close>) first, in ascending order, then the other keys in the order of their
  creation.
\<close>

definition array_index :: "string \<Rightarrow> nat option" where
  "array_index k =
     (let n = foldl (\<lambda>a c. a * 10 + digit_val (of_char c)) 0 k
      in if k \<noteq> [] \<and> list_all (\<lambda>c. is_digit 10 (of_char c)) k
            \<and> (k = ''0'' \<or> hd k \<noteq> CHR ''0'') \<and> n < 2 ^ 32 - 1
         then Some n else None)"

definition property_order :: "(string \<times> jsval) list \<Rightarrow> (string \<times> jsval) list" where
  "property_order kvs =
     sort_key (\<lambda>kv. case array_index (fst kv) of Some n \<Rightarrow> n | None \<Rightarrow> 0)
       (filter (\<lambda>kv. array_index (fst kv) \<noteq> None) kvs)
     @ filter (\<lambda>kv. array_index (fst kv) = None) kvs"

text \<open>
  Object spread \<^verbatim>\<open>{ ...base, ...v }\<close>: each own enumerable property of \<open>v\<close> replaces the
  value of an existing key or is created after the keys there are; the keys of the result
  are in property order. Objects are association lists with distinct keys, as
  \<^verbatim>\<open>JSON.parse\<close> yields them.
\<close>

fun set_key :: "string \<Rightarrow> jsval \<Rightarrow> (string \<times> jsval) list \<Rightarrow> (string \<times> jsval) list" where
  "set_key k v [] = [(k, v)]"
| "set_key k v ((k', v') # kvs) = (if k = k' then (k, v) # kvs else (k', v') # set_key k v kvs)"

fun own_entries :: "jsval \<Rightarrow> (string \<times> jsval) list" where
  "own_entries (JObj kvs) = kvs"
| "own_entries (JArr xs) = zip (map string_of_nat [0..<length xs]) xs"
| "own_entries (JStr s) = zip (map string_of_nat [0..<length s]) (map (\<lambda>c. JStr [c]) s)"
| "own_entries v = []"

definition spread :: "(string \<times> jsval) list \<Rightarrow> jsval \<Rightarrow> (string \<times> jsval) list" where
  "spread base v =
     property_order (foldl (\<lambda>acc kv. set_key (fst kv) (snd kv) acc) base (own_entries v))"

text \<open>
  The timestamp is the clock reading; its rendering by \<^verbatim>\<open>toISOString\<close> is left out.
\<close>

definition fallback_summary :: "nat \<Rightarrow> jsval \<Rightarrow> turn list \<Rightarrow> jsval" where
  "fallback_summary now pet rs = JObj
     [(''timestamp'', JNum (int now)),
      (''petInfo'', pet),
      (''responses'', JArr (map turn_js rs)),
      (''urgencyLevel'', JStr ''Medium''),
      (''urgencyReason'', JStr ''Unable to analyze - recommend veterinary consultation''),
      (''keyFindings'', JArr [JStr ''Triage information collected'', JStr ''Analysis system unavailable'']),
      (''recommendations'', JArr [JStr ''Contact your veterinarian for proper assessment'']),
      (''followUpActions'', JArr [JStr ''Schedule veterinary appointment'', JStr ''Monitor pet closely'']),
      (''spokenSummary'', JStr ''I have collected your information but cannot provide a detailed analysis at this time. I recommend contacting your veterinarian for a proper assessment of your pet's condition.'')]"

definition generateTriageSummary :: "turn list \<Rightarrow> jsval js" where
  "generateTriageSummary rs =
     try_catch
       (let answers = join '' | '' (map (\<lambda>r. or_text (t_response r) ''No response provided'') rs)
        in bind_js (fetch (PostAnalyze answers rs)) (\<lambda>response.
           if \<not> ok response
           then throw_js (Error ''Triage analysis failed'')
           else bind_js (response_json response) (\<lambda>analysis.
                (\<lambda>w. (Inr (JObj (spread [(''timestamp'', JNum (int (clock w))),
                                          (''petInfo'', petInfo w),
                                          (''responses'', JArr (map turn_js rs))] analysis)), w)))))
       (\<lambda>error. bind_js (emit (ConsoleError Error_generating_triage_summary)) (\<lambda>_.
                 (\<lambda>w. (Inr (fallback_summary (clock w) (petInfo w) rs), w))))"

text \<open>What a reader of the summary sees under a key.\<close>

fun field :: "jsval \<Rightarrow> string \<Rightarrow> jsval" where
  "field (JObj kvs) k = (case map_of kvs k of None \<Rightarrow> JUndefined | Some v \<Rightarrow> v)"
| "field v k = JUndefined"

section \<open>The questioning sequence\<close>

definition INTRODUCTION :: string where
  "INTRODUCTION = ''Hello! I'm your AI veterinary triage assistant. I'll ask you 5 important questions about your pet to better understand their health concerns.''"

definition QUESTION_1 :: string where
  "QUESTION_1 = ''Question 1: What is your pet's name and breed?''"

definition QUESTION_2 :: string where
  "QUESTION_2 = ''Question 2: Is your pet spayed or neutered?''"

definition QUESTION_3 :: string where
  "QUESTION_3 = ''Question 3: Does your pet have any existing medical conditions?''"

definition QUESTION_4 :: string where
  "QUESTION_4 = ''Question 4: Is your pet currently taking any medications or supplements?''"

definition QUESTION_5 :: string where
  "QUESTION_5 = ''Question 5: What is the main issue you are concerned about with your pet? Can you describe the symptoms?''"

text \<open>The \<^verbatim>\<open>questions\<close> array: the introduction at index 0, then the five questions.\<close>

definition QUESTIONS :: "string list" where
  "QUESTIONS = [INTRODUCTION, QUESTION_1, QUESTION_2, QUESTION_3, QUESTION_4, QUESTION_5]"

definition THANK_YOU :: string where
  "THANK_YOU = ''Thank you.''"

definition CLOSING_LINE :: string where
  "CLOSING_LINE = ''Thank you for providing that information. Let me analyze your responses and create a triage summary for you.''"

subsection \<open>The listening window\<close>

definition timeout_response :: "nat \<Rightarrow> string" where
  "timeout_response questionNumber = ''Response received for question '' @ string_of_nat questionNumber"

definition voice_response :: "nat \<Rightarrow> string" where
  "voice_response questionNumber = ''Voice response completed for question '' @ string_of_nat questionNumber"

text \<open>The \<^verbatim>\<open>setTimeout\<close> of the window, in milliseconds.\<close>

definition TIMEOUT_MS :: nat where
  "TIMEOUT_MS = 15000"

text \<open>\<^verbatim>\<open>analyser.fftSize = 256\<close>, and \<^verbatim>\<open>frequencyBinCount\<close> is half of it.\<close>

definition bufferLength :: nat where
  "bufferLength = 256 div 2"

text \<open>
  \<^verbatim>\<open>average > 25\<close> where \<^verbatim>\<open>average\<close> is the sum of the byte data divided by
  \<^verbatim>\<open>bufferLength\<close>: the comparison is written without the division.
\<close>

definition voice_threshold_exceeded :: "nat list \<Rightarrow> bool" where
  "voice_threshold_exceeded dataArray = (25 * bufferLength < sum_list dataArray)"

text \<open>
  \<^verbatim>\<open>checkAudio\<close> runs once when the window opens and then once per animation frame,
  rescheduling itself with \<^verbatim>\<open>requestAnimationFrame\<close>. The arguments are the question
  number, \<^verbatim>\<open>voiceDetected\<close>, \<^verbatim>\<open>silenceCount\<close> and the frames still to come, each with
  its time since the window opened. A frame at or after the timeout finds
  \<^verbatim>\<open>responseReceived\<close> set by the timer; when the browser stops delivering frames the
  timer is all that is left. The result is the time at which the promise resolves and the
  value it resolves with. The toast shown on a loud frame is not recorded.
\<close>

fun checkAudio :: "nat \<Rightarrow> bool \<Rightarrow> nat \<Rightarrow> (nat \<times> nat list) list \<Rightarrow> nat \<times> string" where
  "checkAudio q voiceDetected silenceCount [] = (TIMEOUT_MS, timeout_response q)"
| "checkAudio q voiceDetected silenceCount ((t, dataArray) # rest) =
     (if TIMEOUT_MS \<le> t then (TIMEOUT_MS, timeout_response q)
      else if voice_threshold_exceeded dataArray then checkAudio q True 0 rest
      else if voiceDetected
           then (if 50 < silenceCount + 1 then (t, voice_response q)
                 else checkAudio q True (silenceCount + 1) rest)
           else checkAudio q voiceDetected silenceCount rest)"

definition listen :: "bool \<Rightarrow> window \<Rightarrow> nat \<Rightarrow> nat \<times> string" where
  "listen has_audioTrack win questionNumber =
     (if has_audioTrack \<and> \<not> monitor_throws win
      then checkAudio questionNumber False 0 (frames win)
      else (TIMEOUT_MS, timeout_response questionNumber))"

definition next_window :: "window list \<Rightarrow> window" where
  "next_window ws = (case ws of [] \<Rightarrow> \<lparr>monitor_throws = False, frames = []\<rparr> | x # _ \<Rightarrow> x)"

definition waitForUserResponse :: "nat \<Rightarrow> string js" where
  "waitForUserResponse questionNumber = (\<lambda>w.
     let win = next_window (windows w);
         has_audioTrack = (audioTrack w \<noteq> None);
         result = listen has_audioTrack win questionNumber
     in (Inr (snd result),
         w\<lparr>windows := tl (windows w),
           clock := clock w + fst result,
           trace := trace w @ (if has_audioTrack \<and> monitor_throws win
                               then [ConsoleError Audio_monitoring_error] else [])\<rparr>))"

subsection \<open>Speaking\<close>

text \<open>\<^verbatim>\<open>playTTSMessage\<close> resolves on the end of the utterance and on its error alike.\<close>

definition playTTSMessage :: "jsval \<Rightarrow> unit js" where
  "playTTSMessage text_arg = emit (Speak text_arg)"

text \<open>
  The promise around \<^verbatim>\<open>new Audio(audioUrl)\<close>: it resolves when playback ends and rejects
  on a playback error or a rejected \<^verbatim>\<open>audio.play()\<close>.
\<close>

definition audio_playback :: "unit js" where
  "audio_playback = (\<lambda>w.
     let w' = w\<lparr>trace := trace w @ [Play], playbacks := tl (playbacks w)\<rparr>
     in case playbacks w of
          [] \<Rightarrow> (Inr (), w')
        | ended # rest \<Rightarrow> if ended then (Inr (), w') else (Inl (Error ''Audio playback error''), w'))"

text \<open>
  \<^verbatim>\<open>playOpenAITTS\<close>. Its \<^verbatim>\<open>try\<close> block returns the playback promise without awaiting it,
  so a rejected playback is not caught by its \<^verbatim>\<open>catch\<close>: the block's value says whether
  such a promise was returned, and the promise settles after the block. Calling
  \<^verbatim>\<open>trim\<close> on a truthy value that is not a string is a \<^verbatim>\<open>TypeError\<close> inside the block.
\<close>

definition playOpenAITTS :: "jsval \<Rightarrow> unit js" where
  "playOpenAITTS text_arg =
     bind_js
       (try_catch
          (if \<not> truthy text_arg then ret_js False
           else case text_arg of
                  JStr s \<Rightarrow>
                    if dropWhile (\<lambda>c. is_space (of_char c)) s = [] then ret_js False
                    else bind_js (fetch (PostTTS s)) (\<lambda>response.
                         if \<not> ok response then throw_js (Error ''TTS request failed'')
                         else ret_js True)
                | _ \<Rightarrow> throw_js TypeError)
          (\<lambda>error. bind_js (emit (ConsoleError OpenAI_TTS_error)) (\<lambda>_.
                    bind_js (playTTSMessage text_arg) (\<lambda>_. ret_js False))))
       (\<lambda>playing. if playing then audio_playback else ret_js ())"

subsection \<open>The loop over the questions\<close>

definition push_response :: "string \<Rightarrow> string \<Rightarrow> unit js" where
  "push_response question response = (\<lambda>w.
     (Inr (), w\<lparr>responses := responses w @
        [\<lparr>t_question = question, t_timestamp = clock w, t_response = response\<rparr>]\<rparr>))"

text \<open>One iteration of the \<^verbatim>\<open>for\<close> loop, with its own \<^verbatim>\<open>try\<close>/\<^verbatim>\<open>catch\<close>.\<close>

definition question_step :: "nat \<Rightarrow> string \<Rightarrow> unit js" where
  "question_step i question =
     try_catch
       (bind_js (emit (Toast (if i = 0 then Welcome_Starting_triage_assessment else Question_of_5 i))) (\<lambda>_.
        bind_js (emit (Indicator Speaking)) (\<lambda>_.
        bind_js (playOpenAITTS (JStr question)) (\<lambda>_.
        if i = 0 then delay 2000
        else bind_js (delay 1000) (\<lambda>_.
             bind_js (emit (Indicator Listening)) (\<lambda>_.
             bind_js (emit (Toast Listening_for_your_answer)) (\<lambda>_.
             bind_js (waitForUserResponse i) (\<lambda>response.
             bind_js (push_response question response) (\<lambda>_.
             bind_js (emit (Indicator Speaking)) (\<lambda>_.
             bind_js (playOpenAITTS (JStr THANK_YOU)) (\<lambda>_.
             delay 1000)))))))))))
       (\<lambda>error. emit (ConsoleError (Error_with_question i)))"

fun question_loop :: "nat \<Rightarrow> string list \<Rightarrow> unit js" where
  "question_loop i [] = ret_js ()"
| "question_loop i (question # rest) =
     bind_js (question_step i question) (\<lambda>_. question_loop (Suc i) rest)"

text \<open>\<^verbatim>\<open>displayTriageSummary\<close> catches its own errors; it is recorded as one effect.\<close>

definition startOpenAIQuestioningSequence :: "unit js" where
  "startOpenAIQuestioningSequence =
     bind_js (\<lambda>w. (Inr (), w\<lparr>responses := []\<rparr>)) (\<lambda>_.
     bind_js (question_loop 0 QUESTIONS) (\<lambda>_.
     bind_js (emit (Indicator Speaking)) (\<lambda>_.
     bind_js (playOpenAITTS (JStr CLOSING_LINE)) (\<lambda>_.
     bind_js (\<lambda>w. generateTriageSummary (responses w) w) (\<lambda>triageSummary.
     bind_js (\<lambda>w. (Inr (), w\<lparr>vetai_triage_responses := Some (responses w),
                              vetai_triage_summary := Some triageSummary\<rparr>)) (\<lambda>_.
     bind_js (get_prop triageSummary ''spokenSummary'') (\<lambda>spokenSummary.
     bind_js (playOpenAITTS spokenSummary) (\<lambda>_.
     bind_js (emit (Indicator Listening)) (\<lambda>_.
     bind_js (emit (Toast Triage_assessment_complete)) (\<lambda>_.
     bind_js (emit (Display triageSummary)) (\<lambda>_.
     bind_js (emit (Indicator Listening)) (\<lambda>_.
     emit (Toast Triage_complete)))))))))))))"

section \<open>Observing a run\<close>

text \<open>The module's variables as the page loads them, with a silent environment.\<close>

definition initial_world :: world where
  "initial_world = \<lparr>
     client = False, channel = None, audioTrack = None, videoTrack = None,
     remoteUsers = [], agoraConvoTaskID = JStr [], conversationStartTime = None,
     petInfo = JNull, responses = [], vetai_triage_responses = None,
     vetai_triage_summary = None, vetai_session_data = None, vetai_triage_ready = False,
     trace = [], clock = 0, inbox = [], playbacks = [], windows = [],
     leave_rejects = False\<rparr>"

text \<open>The effects a run from \<open>w\<close> to \<open>w'\<close> added.\<close>

definition new_events :: "world \<Rightarrow> world \<Rightarrow> event list" where
  "new_events w w' = drop (length (trace w)) (trace w')"

fun requests_of :: "event list \<Rightarrow> request list" where
  "requests_of [] = []"
| "requests_of (Fetch r # es) = r # requests_of es"
| "requests_of (e # es) = requests_of es"

text \<open>The create and leave requests and the waits of a run, in order.\<close>

fun agent_calls :: "event list \<Rightarrow> event list" where
  "agent_calls [] = []"
| "agent_calls (Fetch (PostStart ch tok) # es) = Fetch (PostStart ch tok) # agent_calls es"
| "agent_calls (Fetch (PostLeave a) # es) = Fetch (PostLeave a) # agent_calls es"
| "agent_calls (Delay ms # es) = Delay ms # agent_calls es"
| "agent_calls (e # es) = agent_calls es"

text \<open>The values assigned to \<^verbatim>\<open>agoraConvoTaskID\<close> during a run, in order.\<close>

fun assignments :: "event list \<Rightarrow> jsval list" where
  "assignments [] = []"
| "assignments (AssignTaskID v # es) = v # assignments es"
| "assignments (e # es) = assignments es"

definition responded_ok :: "fetch_result \<Rightarrow> bool" where
  "responded_ok x = (case x of Rejects \<Rightarrow> False | Responds r \<Rightarrow> ok r)"

definition payload :: "fetch_result \<Rightarrow> jsval" where
  "payload x = (case x of Rejects \<Rightarrow> JUndefined
                | Responds r \<Rightarrow> (case body_json r of None \<Rightarrow> JUndefined | Some v \<Rightarrow> v))"

text \<open>
  A fetch outcome the handler can use: an OK response whose body is JSON other than
  \<^verbatim>\<open>null\<close>, so that reading a property of it does not throw.
\<close>

definition usable :: "fetch_result \<Rightarrow> bool" where
  "usable x = (responded_ok x \<and> payload x \<noteq> JUndefined \<and> payload x \<noteq> JNull)"

definition next_response_ok :: "world \<Rightarrow> bool" where
  "next_response_ok w = (case inbox w of Responds r # rest \<Rightarrow> ok r | _ \<Rightarrow> False)"

text \<open>What the best-effort cleanup adds to the trace, given the outcome of its fetch.\<close>

definition cleanup_events :: "string \<Rightarrow> fetch_result \<Rightarrow> event list" where
  "cleanup_events ch c =
     Fetch (PostCleanup ch) #
     (case c of
        Rejects \<Rightarrow> [ConsoleLog No_existing_agent_to_clean_up]
      | Responds r \<Rightarrow> if ok r then [ConsoleLog Cleaned_up_existing_AI_agent, Delay 1000] else [])"

definition after_cleanup :: "string \<Rightarrow> world \<Rightarrow> world" where
  "after_cleanup ch w = snd (cleanup_existing ch w)"

text \<open>Stopping and closing every track that is held, audio first.\<close>

definition media_release :: "world \<Rightarrow> event list" where
  "media_release w =
     (case audioTrack w of None \<Rightarrow> [] | Some t \<Rightarrow> [TrackStop t, TrackClose t]) @
     (case videoTrack w of None \<Rightarrow> [] | Some t \<Rightarrow> [TrackStop t, TrackClose t])"

definition released :: "world \<Rightarrow> world" where
  "released w = snd (release_videoTrack (snd (release_audioTrack w)))"

text \<open>What \<open>stopConvoAI\<close> adds to the trace and the state it leaves.\<close>

definition stop_events :: "world \<Rightarrow> event list" where
  "stop_events w =
     (if \<not> truthy (agoraConvoTaskID w) then [ConsoleLog No_active_agent_to_stop]
      else if next_response_ok w
      then [ConsoleLog Stopping_Convo_AI, Fetch (PostLeave (agoraConvoTaskID w)),
            ConsoleLog Convo_AI_stopped_successfully, AssignTaskID (JStr [])]
      else [ConsoleLog Stopping_Convo_AI, Fetch (PostLeave (agoraConvoTaskID w)),
            ConsoleError Error_stopping_Convo_AI])"

definition stopConvoAI_result :: "world \<Rightarrow> world" where
  "stopConvoAI_result w =
     (if \<not> truthy (agoraConvoTaskID w)
      then w\<lparr>trace := trace w @ [ConsoleLog No_active_agent_to_stop]\<rparr>
      else if next_response_ok w
      then w\<lparr>trace := trace w @ [ConsoleLog Stopping_Convo_AI,
                                  Fetch (PostLeave (agoraConvoTaskID w)),
                                  ConsoleLog Convo_AI_stopped_successfully,
                                  AssignTaskID (JStr [])],
             inbox := tl (inbox w), agoraConvoTaskID := JStr []\<rparr>
      else w\<lparr>trace := trace w @ [ConsoleLog Stopping_Convo_AI,
                                  Fetch (PostLeave (agoraConvoTaskID w)),
                                  ConsoleError Error_stopping_Convo_AI],
             inbox := tl (inbox w)\<rparr>)"

definition leave_events :: "world \<Rightarrow> event list" where
  "leave_events w =
     (if \<not> client w then [ConsoleLog Left_channel_successfully]
      else if leave_rejects w then [ClientLeave, ConsoleError Error_leaving_channel]
      else [ClientLeave, ConsoleLog Left_channel_successfully])"

text \<open>
  The three kinds of teardown step, numbered in the order the handler performs them:
  releasing local media, stopping the agent, leaving the transport channel.
\<close>

fun teardown_phase :: "event \<Rightarrow> nat option" where
  "teardown_phase (TrackStop t) = Some 0"
| "teardown_phase (TrackClose t) = Some 0"
| "teardown_phase (Fetch (PostLeave a)) = Some 1"
| "teardown_phase ClientLeave = Some 2"
| "teardown_phase e = None"

text \<open>
  The same steps numbered in the order the design document gives for finalization:
  stop the agent, then release local media, then leave the channel.
\<close>

fun documented_phase :: "event \<Rightarrow> nat option" where
  "documented_phase (Fetch (PostLeave a)) = Some 0"
| "documented_phase (TrackStop t) = Some 1"
| "documented_phase (TrackClose t) = Some 1"
| "documented_phase ClientLeave = Some 2"
| "documented_phase e = None"

text \<open>Sample states and responses used to exercise the theorems.\<close>

definition ok_response :: "jsval \<Rightarrow> response" where
  "ok_response v = \<lparr>status = 200, statusText = ''OK'', body_text = ''{...}'', body_json = Some v\<rparr>"

definition error_response :: "nat \<Rightarrow> jsval \<Rightarrow> response" where
  "error_response code v =
     \<lparr>status = code, statusText = ''Error'', body_text = ''{...}'', body_json = Some v\<rparr>"

definition in_call :: world where
  "in_call = initial_world\<lparr>
     client := True, channel := Some ''vet-triage'', audioTrack := Some 1,
     videoTrack := Some 2, agoraConvoTaskID := JStr ''agent-1'',
     conversationStartTime := Some 0, clock := 60000\<rparr>"

definition ready_to_start :: world where
  "ready_to_start = initial_world\<lparr>
     client := True, channel := Some ''vet-triage'', audioTrack := Some 1, videoTrack := Some 2\<rparr>"

definition token_reply :: fetch_result where
  "token_reply = Responds (ok_response (JObj [(''token'', JStr ''tok'')]))"

definition cleaned_reply :: fetch_result where
  "cleaned_reply = Responds (ok_response (JObj [(''cleaned'', JBool False)]))"

definition conflict_reply :: "jsval \<Rightarrow> fetch_result" where
  "conflict_reply v = Responds (error_response 409 v)"

definition started_reply :: "string \<Rightarrow> fetch_result" where
  "started_reply agent = Responds (ok_response (JObj [(''agent_id'', JStr agent)]))"

text \<open>\<^verbatim>\<open>!x\<close> on an environment variable or a query parameter.\<close>

definition absent_or_empty :: "string option \<Rightarrow> bool" where
  "absent_or_empty x = (case x of None \<Rightarrow> True | Some s \<Rightarrow> s = [])"

text \<open>The participant id the endpoint derives from the \<^verbatim>\<open>uid\<close> parameter.\<close>

definition uid_or_zero :: "code_units option \<Rightarrow> number" where
  "uid_or_zero u = (case u of None \<Rightarrow> Integer 0 | Some s \<Rightarrow> or_zero (parseInt s))"

text \<open>A stand-in token builder and a configured server, to exercise the endpoint.\<close>

definition show_number :: "number \<Rightarrow> string" where
  "show_number x = (case x of
       NaN \<Rightarrow> ''NaN''
     | Integer n \<Rightarrow> (if n < 0 then ''-'' else []) @ string_of_nat (nat \<bar>n\<bar>)
     | Rounded \<Rightarrow> ''rounded'')"

definition sample_builder :: "token_args \<Rightarrow> string" where
  "sample_builder a =
     arg_channelName a @ ''/'' @ show_number (arg_uid a) @ ''/'' @
     (case arg_role a of PUBLISHER \<Rightarrow> ''pub'' | SUBSCRIBER \<Rightarrow> ''sub'') @ ''/'' @
     string_of_nat (arg_privilegeExpiredTs a)"

definition configured :: server_env where
  "configured = \<lparr>AGORA_APPID = Some ''app'', AGORA_APPCERTIFICATE = Some ''cert''\<rparr>"

text \<open>The answers as the analysis prompt lists them.\<close>

definition joined_answers :: "turn list \<Rightarrow> string" where
  "joined_answers rs = join '' | '' (map (\<lambda>r. or_text (t_response r) ''No response provided'') rs)"

text \<open>
  The analysis call fails, as the handler sees it: the fetch rejects, the response is
  not OK, or its body is not JSON.
\<close>

definition analysis_fails :: "world \<Rightarrow> bool" where
  "analysis_fails w =
     (case inbox w of
        Responds r # rest \<Rightarrow> \<not> ok r \<or> body_json r = None
      | _ \<Rightarrow> True)"

text \<open>
  Animation frames as a 60 Hz display delivers them: one frame above the voice
  threshold when the window opens, then 51 silent frames, one every sixtieth of a second.
\<close>

definition loud_frame :: "nat list" where
  "loud_frame = replicate 128 200"

definition silent_frame :: "nat list" where
  "silent_frame = replicate 128 0"

definition burst_then_silence_60Hz :: "(nat \<times> nat list) list" where
  "burst_then_silence_60Hz =
     (0, loud_frame) # map (\<lambda>k. (k * 50 div 3, silent_frame)) [1..<52]"

text \<open>Every audio playback still to come ends normally.\<close>

definition every_playback_ends :: "world \<Rightarrow> bool" where
  "every_playback_ends w = list_all (\<lambda>ended. ended) (playbacks w)"

text \<open>The states the steps of the questioning sequence leave, and what a window hears.\<close>

definition after_tts :: "jsval \<Rightarrow> world \<Rightarrow> world" where
  "after_tts text_arg w = snd (playOpenAITTS text_arg w)"

definition heard :: "nat \<Rightarrow> world \<Rightarrow> string" where
  "heard i w = snd (listen (audioTrack w \<noteq> None) (next_window (windows w)) i)"

definition after_wait :: "nat \<Rightarrow> world \<Rightarrow> world" where
  "after_wait i w = snd (waitForUserResponse i w)"

definition after_step :: "nat \<Rightarrow> string \<Rightarrow> world \<Rightarrow> world" where
  "after_step i question w = snd (question_step i question w)"

text \<open>
  The responses are the sentinels of consecutive question numbers, starting at \<open>i\<close>:
  each is the timeout value or the voice-completed value of its own question.
\<close>

fun sentinels_from :: "nat \<Rightarrow> string list \<Rightarrow> bool" where
  "sentinels_from i [] = True"
| "sentinels_from i (r # rs) =
     ((r = timeout_response i \<or> r = voice_response i) \<and> sentinels_from (Suc i) rs)"

text \<open>What the windows of the questions from number \<open>i\<close> on hear, in order.\<close>

fun heard_from :: "nat \<Rightarrow> string list \<Rightarrow> world \<Rightarrow> string list" where
  "heard_from i [] w = []"
| "heard_from i (question # rest) w =
     heard i w # heard_from (Suc i) rest (after_step i question w)"

text \<open>
  The state in which the loop over the questions ends, when the sequence is started in
  \<open>w\<close>: the loop runs on the freshly emptied \<^verbatim>\<open>responses\<close> array.
\<close>

definition loop_result :: "world \<Rightarrow> world" where
  "loop_result w = snd (question_loop 0 QUESTIONS (w\<lparr>responses := []\<rparr>))"

text \<open>
  A session in which the speech endpoint answers and the introduction plays, but the
  playback of the first question is rejected.
\<close>

definition first_question_unplayable :: world where
  "first_question_unplayable = initial_world\<lparr>
     inbox := [Responds (ok_response JNull), Responds (ok_response JNull)],
     playbacks := [True, False]\<rparr>"

section \<open>Stepping through a computation\<close>

lemma ret_apply: "ret_js x w = (Inr x, w)"
  by (simp add: ret_js_def)

lemma throw_apply: "throw_js e w = (Inl e, w)"
  by (simp add: throw_js_def)

lemma emit_apply: "emit e w = (Inr (), w\<lparr>trace := trace w @ [e]\<rparr>)"
  by (simp add: emit_def)

lemma delay_apply:
  "delay ms w = (Inr (), w\<lparr>trace := trace w @ [Delay ms], clock := clock w + ms\<rparr>)"
  by (simp add: delay_def)

lemma try_apply:
  "try_catch m h w = (case m w of (Inl e, w') \<Rightarrow> h e w' | (Inr x, w') \<Rightarrow> (Inr x, w'))"
  by (simp add: try_catch_def)

lemma bind_ret [simp]: "bind_js (ret_js x) f = f x"
  by (simp add: bind_js_def ret_js_def)

lemma bind_throw [simp]: "bind_js (throw_js e) f = throw_js e"
  by (simp add: bind_js_def throw_js_def)

lemma bind_assoc: "bind_js (bind_js m f) g = bind_js m (\<lambda>x. bind_js (f x) g)"
  by (auto simp: bind_js_def fun_eq_iff split: prod.splits sum.splits)

lemma bind_try:
  "bind_js (try_catch m h) f w =
     (case m w of (Inl e, w') \<Rightarrow> bind_js (h e) f w' | (Inr x, w') \<Rightarrow> f x w')"
  by (auto simp: bind_js_def try_catch_def split: prod.splits sum.splits)

lemma bind_if: "bind_js (if c then a else b) f = (if c then bind_js a f else bind_js b f)"
  by simp

lemma bind_emit: "bind_js (emit e) f w = f () (w\<lparr>trace := trace w @ [e]\<rparr>)"
  by (simp add: bind_js_def emit_def)

lemma bind_delay:
  "bind_js (delay ms) f w = f () (w\<lparr>trace := trace w @ [Delay ms], clock := clock w + ms\<rparr>)"
  by (simp add: bind_js_def delay_def)

lemma bind_fetch:
  "bind_js (fetch rq) f w =
     (case inbox w of
        Responds r # rest \<Rightarrow> f r (w\<lparr>trace := trace w @ [Fetch rq], inbox := rest\<rparr>)
      | _ \<Rightarrow> (Inl NetworkError, w\<lparr>trace := trace w @ [Fetch rq], inbox := tl (inbox w)\<rparr>))"
  by (simp add: bind_js_def fetch_def Let_def split: list.splits fetch_result.splits)

lemma bind_response_json:
  "bind_js (response_json r) f w =
     (case body_json r of None \<Rightarrow> (Inl SyntaxError, w) | Some v \<Rightarrow> f v w)"
  by (simp add: response_json_def throw_apply split: option.splits)

lemma bind_get_prop:
  "bind_js (get_prop v k) f w =
     (if v = JNull \<or> v = JUndefined then (Inl TypeError, w) else f (field v k) w)"
  by (cases v) (simp_all add: throw_apply)

lemma bind_assign:
  "bind_js (assign_agoraConvoTaskID v) f w =
     f () (w\<lparr>agoraConvoTaskID := v, trace := trace w @ [AssignTaskID v]\<rparr>)"
  by (simp add: bind_js_def assign_agoraConvoTaskID_def)

lemma assign_apply:
  "assign_agoraConvoTaskID v w =
     (Inr (), w\<lparr>agoraConvoTaskID := v, trace := trace w @ [AssignTaskID v]\<rparr>)"
  by (simp add: assign_agoraConvoTaskID_def)

lemma bind_set_start:
  "bind_js set_conversationStartTime f w = f () (w\<lparr>conversationStartTime := Some (clock w)\<rparr>)"
  by (simp add: bind_js_def set_conversationStartTime_def)

lemmas steps = bind_if bind_emit bind_delay bind_fetch bind_response_json bind_get_prop
  bind_assign bind_set_start try_apply bind_assoc bind_try ret_apply throw_apply emit_apply
  delay_apply assign_apply

lemma new_events_append [simp]: "new_events w (w'\<lparr>trace := trace w @ es\<rparr>) = es"
  by (simp add: new_events_def)

lemma map_filter_append:
  "List.map_filter f (xs @ ys) = List.map_filter f xs @ List.map_filter f ys"
  by (simp add: List.map_filter_def)

section \<open>Teardown\<close>

lemma stopConvoAI_eq: "stopConvoAI w = (Inr (), stopConvoAI_result w)"
  by (simp add: stopConvoAI_def stopConvoAI_result_def next_response_ok_def steps
        split: list.splits fetch_result.splits)

lemma stop_fields [simp]:
  "client (stopConvoAI_result w) = client w"
  "leave_rejects (stopConvoAI_result w) = leave_rejects w"
  "audioTrack (stopConvoAI_result w) = audioTrack w"
  "videoTrack (stopConvoAI_result w) = videoTrack w"
  "trace (stopConvoAI_result w) = trace w @ stop_events w"
  "agoraConvoTaskID (stopConvoAI_result w) =
     (if truthy (agoraConvoTaskID w) \<and> next_response_ok w then JStr [] else agoraConvoTaskID w)"
  by (simp_all add: stopConvoAI_result_def stop_events_def)

lemma release_eq:
  "bind_js release_audioTrack (\<lambda>_. bind_js release_videoTrack f) w = f () (released w)"
  by (simp add: release_audioTrack_def release_videoTrack_def released_def
        bind_js_def split: option.splits)

lemma released_fields [simp]:
  "client (released w) = client w"
  "leave_rejects (released w) = leave_rejects w"
  "audioTrack (released w) = None"
  "videoTrack (released w) = None"
  "agoraConvoTaskID (released w) = agoraConvoTaskID w"
  "inbox (released w) = inbox w"
  "trace (released w) = trace w @ media_release w"
  by (simp_all add: released_def release_audioTrack_def release_videoTrack_def media_release_def
        split: option.splits)

lemma next_response_ok_released [simp]: "next_response_ok (released w) = next_response_ok w"
  by (simp add: next_response_ok_def)

lemma stop_events_released [simp]: "stop_events (released w) = stop_events w"
  by (simp add: stop_events_def)

lemma leaveChannel_returns: "fst (leaveChannel w) = Inr ()"
  unfolding leaveChannel_def try_apply release_eq
  by (simp add: bind_js_def stopConvoAI_eq client_leave_def ret_js_def emit_def Let_def)

lemma leaveChannel_trace:
  "trace (snd (leaveChannel w)) = trace w @ media_release w @ stop_events w @ leave_events w"
  unfolding leaveChannel_def try_apply release_eq
  by (simp add: bind_js_def stopConvoAI_eq client_leave_def ret_js_def emit_def Let_def
        leave_events_def)

lemma leaveChannel_tracks:
  "audioTrack (snd (leaveChannel w)) = None \<and> videoTrack (snd (leaveChannel w)) = None"
  unfolding leaveChannel_def try_apply release_eq
  by (simp add: bind_js_def stopConvoAI_eq client_leave_def ret_js_def emit_def Let_def)

lemma leaveChannel_new_events:
  "new_events w (snd (leaveChannel w)) = media_release w @ stop_events w @ leave_events w"
  by (simp add: new_events_def leaveChannel_trace)

lemma leaveChannel_eq: "leaveChannel w = (Inr (), snd (leaveChannel w))"
  using leaveChannel_returns[of w] by (cases "leaveChannel w") simp

lemma endConversation_returns: "fst (endConversation w) = Inr ()"
  unfolding endConversation_def
  by (subst bind_emit, subst try_apply, subst bind_js_def, subst leaveChannel_eq)
     (simp add: steps bind_js_def)

lemma endConversation_new_events:
  "new_events w (snd (endConversation w)) =
     [Loading Ending_session] @ media_release w @ stop_events w @ leave_events w @
     [Status Session_Ended, Indicator Inactive, Redirect Summary_page]"
  unfolding endConversation_def
  apply (subst bind_emit, subst try_apply, subst bind_js_def, subst leaveChannel_eq)
  apply (simp add: steps new_events_def leaveChannel_trace bind_js_def stop_events_def
      next_response_ok_def media_release_def leave_events_def)
  done

lemma phases_media:
  "List.map_filter teardown_phase (media_release w) = replicate (length (media_release w)) 0"
  by (simp add: media_release_def List.map_filter_def split: option.splits)

lemma phases_stop:
  "List.map_filter teardown_phase (stop_events w) = (if truthy (agoraConvoTaskID w) then [1] else [])"
  by (simp add: stop_events_def List.map_filter_def)

lemma phases_leave:
  "List.map_filter teardown_phase (leave_events w) = (if client w then [2] else [])"
  by (simp add: leave_events_def List.map_filter_def)

lemma media_release_no_leave: "ClientLeave \<notin> set (media_release w)"
  by (simp add: media_release_def split: option.splits)

lemma stop_events_no_leave: "ClientLeave \<notin> set (stop_events w)"
  by (simp add: stop_events_def)


text \<open>
  C5. In every execution of \<open>leaveChannel\<close> the run begins by stopping and closing each
  track that is held, and both handles are cleared; the transport leave call is issued
  once, after that, when there is a client. This holds whether or not tracks are held and
  whether or not the transport leave call fails, and \<open>leaveChannel\<close> itself never throws.
\<close>

theorem leaveChannel_releases_media_first:
  "fst (leaveChannel w) = Inr ()
   \<and> (\<exists>rest. new_events w (snd (leaveChannel w)) = media_release w @ rest
         \<and> count_list rest ClientLeave = (if client w then 1 else 0))
   \<and> ClientLeave \<notin> set (media_release w)
   \<and> audioTrack (snd (leaveChannel w)) = None
   \<and> videoTrack (snd (leaveChannel w)) = None"
proof -
  have "count_list (stop_events w @ leave_events w) ClientLeave = (if client w then 1 else 0)"
    by (simp add: stop_events_def leave_events_def)
  then have "\<exists>rest. new_events w (snd (leaveChannel w)) = media_release w @ rest
         \<and> count_list rest ClientLeave = (if client w then 1 else 0)"
    using leaveChannel_new_events[of w] by blast
  then show ?thesis
    using leaveChannel_returns[of w] leaveChannel_tracks[of w] media_release_no_leave[of w]
    by blast
qed

theorem leaveChannel_releases_media_first_witness:
  "fst (leaveChannel (in_call\<lparr>leave_rejects := True\<rparr>)) = Inr ()
   \<and> take 4 (new_events (in_call\<lparr>leave_rejects := True\<rparr>)
               (snd (leaveChannel (in_call\<lparr>leave_rejects := True\<rparr>))))
       = [TrackStop 1, TrackClose 1, TrackStop 2, TrackClose 2]
   \<and> audioTrack (snd (leaveChannel (in_call\<lparr>leave_rejects := True\<rparr>))) = None
   \<and> videoTrack (snd (leaveChannel (in_call\<lparr>leave_rejects := True\<rparr>))) = None"
  using leaveChannel_releases_media_first [of "in_call\<lparr>leave_rejects := True\<rparr>"]
  by (auto simp: media_release_def in_call_def initial_world_def)

text \<open>
  C6. \<open>stopConvoAI\<close> never throws. With no agent handle recorded it sends nothing and
  leaves the state as it was, apart from a console line. With a handle recorded it sends
  exactly one request, the leave call for that handle, and clears the handle exactly when
  the response is OK; a failed stop is logged with \<^verbatim>\<open>console.error\<close>. In either case
  \<open>leaveChannel\<close> goes on to the transport leave call when there is a client, and does
  not throw.
\<close>

theorem stopConvoAI_best_effort:
  "fst (stopConvoAI w) = Inr ()
   \<and> (\<not> truthy (agoraConvoTaskID w) \<longrightarrow>
        snd (stopConvoAI w) = w\<lparr>trace := trace w @ [ConsoleLog No_active_agent_to_stop]\<rparr>)
   \<and> (truthy (agoraConvoTaskID w) \<longrightarrow>
        requests_of (new_events w (snd (stopConvoAI w))) = [PostLeave (agoraConvoTaskID w)]
        \<and> agoraConvoTaskID (snd (stopConvoAI w)) =
            (if next_response_ok w then JStr [] else agoraConvoTaskID w)
        \<and> (\<not> next_response_ok w \<longrightarrow>
              ConsoleError Error_stopping_Convo_AI \<in> set (new_events w (snd (stopConvoAI w)))))
   \<and> fst (leaveChannel w) = Inr ()
   \<and> (client w \<longrightarrow> ClientLeave \<in> set (new_events w (snd (leaveChannel w))))"
proof -
  have "\<not> truthy (agoraConvoTaskID w) \<longrightarrow>
        snd (stopConvoAI w) = w\<lparr>trace := trace w @ [ConsoleLog No_active_agent_to_stop]\<rparr>"
    by (simp add: stopConvoAI_eq stopConvoAI_result_def)
  moreover have "truthy (agoraConvoTaskID w) \<longrightarrow>
        requests_of (new_events w (snd (stopConvoAI w))) = [PostLeave (agoraConvoTaskID w)]
        \<and> agoraConvoTaskID (snd (stopConvoAI w)) =
            (if next_response_ok w then JStr [] else agoraConvoTaskID w)
        \<and> (\<not> next_response_ok w \<longrightarrow>
              ConsoleError Error_stopping_Convo_AI \<in> set (new_events w (snd (stopConvoAI w))))"
    by (simp add: stopConvoAI_eq new_events_def stop_events_def)
  moreover have "client w \<longrightarrow> ClientLeave \<in> set (new_events w (snd (leaveChannel w)))"
    by (simp add: leaveChannel_new_events leave_events_def)
  ultimately show ?thesis
    using leaveChannel_returns[of w] by (simp add: stopConvoAI_eq)
qed

theorem stopConvoAI_best_effort_witness:
  "\<not> truthy (agoraConvoTaskID initial_world)
   \<and> snd (stopConvoAI initial_world) = initial_world\<lparr>trace := [ConsoleLog No_active_agent_to_stop]\<rparr>
   \<and> truthy (agoraConvoTaskID in_call) \<and> client in_call \<and> \<not> next_response_ok in_call
   \<and> fst (stopConvoAI in_call) = Inr ()
   \<and> requests_of (new_events in_call (snd (stopConvoAI in_call))) = [PostLeave (JStr ''agent-1'')]
   \<and> agoraConvoTaskID (snd (stopConvoAI in_call)) = JStr ''agent-1''
   \<and> ClientLeave \<in> set (new_events in_call (snd (leaveChannel in_call)))"
  using stopConvoAI_best_effort [of initial_world] stopConvoAI_best_effort [of in_call]
  by (simp add: in_call_def initial_world_def next_response_ok_def)

text \<open>
  C3, as the design document states it: finalization stops the agent first, then releases
  the local media, then leaves the channel. On a session that holds both tracks and an
  agent handle the handler releases the tracks before it sends the agent's leave request.
\<close>

theorem endConversation_order_counterexample:
  "new_events (in_call\<lparr>inbox := [Responds (ok_response (JObj []))]\<rparr>)
     (snd (endConversation (in_call\<lparr>inbox := [Responds (ok_response (JObj []))]\<rparr>))) =
     [Loading Ending_session,
      TrackStop 1, TrackClose 1, TrackStop 2, TrackClose 2,
      ConsoleLog Stopping_Convo_AI, Fetch (PostLeave (JStr ''agent-1'')),
      ConsoleLog Convo_AI_stopped_successfully, AssignTaskID (JStr []),
      ClientLeave, ConsoleLog Left_channel_successfully,
      Status Session_Ended, Indicator Inactive, Redirect Summary_page]
   \<and> \<not> sorted (List.map_filter documented_phase
         (new_events (in_call\<lparr>inbox := [Responds (ok_response (JObj []))]\<rparr>)
            (snd (endConversation (in_call\<lparr>inbox := [Responds (ok_response (JObj []))]\<rparr>)))))"
  by (simp add: endConversation_new_events media_release_def stop_events_def leave_events_def
        next_response_ok_def in_call_def initial_world_def ok_response_def ok_def
        List.map_filter_def)

text \<open>
  C3, amended. In every execution of session finalization the teardown steps run in this
  order: the local media tracks are stopped and closed first, then the agent is
  stopped, then the transport channel is left; \<open>endConversation\<close> does not throw.
\<close>

theorem endConversation_teardown_order:
  "fst (endConversation w) = Inr ()
   \<and> new_events w (snd (endConversation w)) =
       [Loading Ending_session] @ media_release w @ stop_events w @ leave_events w @
       [Status Session_Ended, Indicator Inactive, Redirect Summary_page]
   \<and> sorted (List.map_filter teardown_phase (new_events w (snd (endConversation w))))
   \<and> sorted (List.map_filter teardown_phase (new_events w (snd (leaveChannel w))))"
proof -
  have "sorted (List.map_filter teardown_phase (new_events w (snd (endConversation w))))"
    by (simp add: endConversation_new_events map_filter_append phases_media phases_stop
          phases_leave sorted_append map_filter_simps)
  moreover have "sorted (List.map_filter teardown_phase (new_events w (snd (leaveChannel w))))"
    by (simp add: leaveChannel_new_events map_filter_append phases_media phases_stop
          phases_leave sorted_append)
  ultimately show ?thesis
    using endConversation_returns[of w] endConversation_new_events[of w] by simp
qed

theorem endConversation_teardown_order_witness:
  "List.map_filter teardown_phase
     (new_events (in_call\<lparr>inbox := [Responds (ok_response (JObj []))]\<rparr>)
        (snd (endConversation (in_call\<lparr>inbox := [Responds (ok_response (JObj []))]\<rparr>))))
     = [0, 0, 0, 0, 1, 2]
   \<and> sorted (List.map_filter teardown_phase
        (new_events (in_call\<lparr>inbox := [Responds (ok_response (JObj []))]\<rparr>)
           (snd (endConversation (in_call\<lparr>inbox := [Responds (ok_response (JObj []))]\<rparr>)))))"
  using endConversation_teardown_order [of "in_call\<lparr>inbox := [Responds (ok_response (JObj []))]\<rparr>"]
  by (simp add: media_release_def stop_events_def leave_events_def
        next_response_ok_def in_call_def initial_world_def ok_response_def ok_def
        List.map_filter_def)

section \<open>Starting the agent\<close>

lemma cleanup_eq: "cleanup_existing ch w = (Inr (), after_cleanup ch w)"
proof -
  have "fst (cleanup_existing ch w) = Inr ()"
    by (simp add: cleanup_existing_def steps split: list.splits fetch_result.splits)
  then show ?thesis
    by (cases "cleanup_existing ch w") (simp add: after_cleanup_def)
qed

lemma cleanup_bind: "bind_js (cleanup_existing ch) f w = f () (after_cleanup ch w)"
  by (simp add: bind_js_def cleanup_eq)

lemma after_cleanup_fields [simp]:
  "inbox (after_cleanup ch w) = tl (inbox w)"
  "client (after_cleanup ch w) = client w"
  "agoraConvoTaskID (after_cleanup ch w) = agoraConvoTaskID w"
  by (simp_all add: after_cleanup_def cleanup_existing_def steps
        split: list.splits fetch_result.splits)

lemma after_cleanup_trace [simp]:
  "inbox w = c # rest \<Longrightarrow> trace (after_cleanup ch w) = trace w @ cleanup_events ch c"
  by (simp add: after_cleanup_def cleanup_existing_def cleanup_events_def steps
        split: list.splits fetch_result.splits)

lemma conflict_not_ok: "status r = 409 \<Longrightarrow> \<not> ok r"
  by (simp add: ok_def)

lemma agent_calls_append: "agent_calls (xs @ ys) = agent_calls xs @ agent_calls ys"
  by (induction xs rule: agent_calls.induct) simp_all

lemma agent_calls_cleanup:
  "agent_calls (cleanup_events ch c) = (if responded_ok c then [Delay 1000] else [])"
  by (simp add: cleanup_events_def responded_ok_def split: fetch_result.splits)

lemma assignments_append: "assignments (xs @ ys) = assignments xs @ assignments ys"
  by (induction xs rule: assignments.induct) simp_all

lemma assignments_cleanup: "assignments (cleanup_events ch c) = []"
  by (simp add: cleanup_events_def split: fetch_result.splits)

lemma requests_of_append: "requests_of (xs @ ys) = requests_of xs @ requests_of ys"
  by (induction xs rule: requests_of.induct) simp_all

lemma requests_of_cleanup: "requests_of (cleanup_events ch c) = [PostCleanup ch]"
  by (simp add: cleanup_events_def split: fetch_result.splits)

lemma truthy_field: "truthy (field v k) \<Longrightarrow> v \<noteq> JNull \<and> v \<noteq> JUndefined"
  by (cases v) simp_all

text \<open>
  The run in which the first create request is answered 409 with a body that carries an
  agent id, and the fetch of the stop call settles.
\<close>

lemma conflict_retry_run:
  assumes "client w" "channel w = Some ch" "ch \<noteq> []"
    and "inbox w = Responds tok # cleanup # Responds conflict # stop # retry # rest"
    and "body_json tok = Some td" "td \<noteq> JNull" "td \<noteq> JUndefined"
    and "status conflict = 409"
    and "body_json conflict = Some ed" "truthy (field ed ''agent_id'')"
    and "stop \<noteq> Rejects"
  shows "new_events w (snd (startVetConvoAI w)) =
           [Fetch (GetToken ch ''10001'' ''publisher''), ConsoleLog Checking_for_existing_AI_agents] @
           cleanup_events ch cleanup @
           [ConsoleLog Starting_Vet_Convo_AI,
            Fetch (PostStart ch (field td ''token'')),
            ConsoleLog Detected_conflicting_agent,
            Fetch (PostLeave (field ed ''agent_id'')),
            ConsoleLog Stopped_conflicting_agent,
            Delay 2000,
            Fetch (PostStart ch (field td ''token''))] @
           (if usable retry
            then [AssignTaskID (field (payload retry) ''agent_id''),
                  ConsoleLog Started_successfully_after_retry]
            else [ConsoleError Retry_failed, ConsoleError Convo_AI_error,
                  Toast Failed_to_start_AI_assistant])"
    and "fst (startVetConvoAI w) = Inr (usable retry)"
    and "agoraConvoTaskID (snd (startVetConvoAI w)) =
           (if usable retry then field (payload retry) ''agent_id'' else agoraConvoTaskID w)"
proof -
  have ed: "ed \<noteq> JNull" "ed \<noteq> JUndefined"
    using assms(10) truthy_field by blast+
  obtain sr where sr: "stop = Responds sr"
    using assms(11) by (cases stop) auto
  note run = startVetConvoAI_def retry_after_conflict_def cleanup_bind steps conflict_not_ok
    new_events_def responded_ok_def usable_def payload_def
  show "new_events w (snd (startVetConvoAI w)) =
           [Fetch (GetToken ch ''10001'' ''publisher''), ConsoleLog Checking_for_existing_AI_agents] @
           cleanup_events ch cleanup @
           [ConsoleLog Starting_Vet_Convo_AI,
            Fetch (PostStart ch (field td ''token'')),
            ConsoleLog Detected_conflicting_agent,
            Fetch (PostLeave (field ed ''agent_id'')),
            ConsoleLog Stopped_conflicting_agent,
            Delay 2000,
            Fetch (PostStart ch (field td ''token''))] @
           (if usable retry
            then [AssignTaskID (field (payload retry) ''agent_id''),
                  ConsoleLog Started_successfully_after_retry]
            else [ConsoleError Retry_failed, ConsoleError Convo_AI_error,
                  Toast Failed_to_start_AI_assistant])"
    using assms ed sr by (cases retry) (simp_all add: run split: option.splits)
  show "fst (startVetConvoAI w) = Inr (usable retry)"
    using assms ed sr by (cases retry) (simp_all add: run split: option.splits)
  show "agoraConvoTaskID (snd (startVetConvoAI w)) =
           (if usable retry then field (payload retry) ''agent_id'' else agoraConvoTaskID w)"
    using assms ed sr by (cases retry) (simp_all add: run split: option.splits)
qed

text \<open>
  The run in which the 409 body carries an agent id and the fetch of the stop call is
  rejected: the rejection is caught as a failed retry, with no wait and no second create.
\<close>

lemma conflict_stop_rejected_run:
  assumes "client w" "channel w = Some ch" "ch \<noteq> []"
    and "inbox w = Responds tok # cleanup # Responds conflict # Rejects # rest"
    and "body_json tok = Some td" "td \<noteq> JNull" "td \<noteq> JUndefined"
    and "status conflict = 409"
    and "body_json conflict = Some ed" "truthy (field ed ''agent_id'')"
  shows "new_events w (snd (startVetConvoAI w)) =
           [Fetch (GetToken ch ''10001'' ''publisher''), ConsoleLog Checking_for_existing_AI_agents] @
           cleanup_events ch cleanup @
           [ConsoleLog Starting_Vet_Convo_AI,
            Fetch (PostStart ch (field td ''token'')),
            ConsoleLog Detected_conflicting_agent,
            Fetch (PostLeave (field ed ''agent_id'')),
            ConsoleError Retry_failed, ConsoleError Convo_AI_error,
            Toast Failed_to_start_AI_assistant]"
    and "fst (startVetConvoAI w) = Inr False"
proof -
  have ed: "ed \<noteq> JNull" "ed \<noteq> JUndefined"
    using assms(10) truthy_field by blast+
  note run = startVetConvoAI_def retry_after_conflict_def cleanup_bind steps conflict_not_ok
    new_events_def payload_def
  show "new_events w (snd (startVetConvoAI w)) =
           [Fetch (GetToken ch ''10001'' ''publisher''), ConsoleLog Checking_for_existing_AI_agents] @
           cleanup_events ch cleanup @
           [ConsoleLog Starting_Vet_Convo_AI,
            Fetch (PostStart ch (field td ''token'')),
            ConsoleLog Detected_conflicting_agent,
            Fetch (PostLeave (field ed ''agent_id'')),
            ConsoleError Retry_failed, ConsoleError Convo_AI_error,
            Toast Failed_to_start_AI_assistant]"
    using assms ed by (simp add: run)
  show "fst (startVetConvoAI w) = Inr False"
    using assms ed by (simp add: run)
qed

text \<open>The run in which the 409 body carries no agent id: nothing is stopped or retried.\<close>

lemma conflict_without_id_run:
  assumes "client w" "channel w = Some ch" "ch \<noteq> []"
    and "inbox w = Responds tok # cleanup # Responds conflict # later"
    and "body_json tok = Some td" "td \<noteq> JNull" "td \<noteq> JUndefined"
    and "status conflict = 409"
    and "\<not> truthy (field (payload (Responds conflict)) ''agent_id'')"
  shows "agent_calls (new_events w (snd (startVetConvoAI w))) =
           (if responded_ok cleanup then [Delay 1000] else []) @
           [Fetch (PostStart ch (field td ''token''))]"
    and "fst (startVetConvoAI w) = Inr False"
proof -
  note run = startVetConvoAI_def retry_after_conflict_def cleanup_bind steps conflict_not_ok
    new_events_def payload_def agent_calls_append agent_calls_cleanup
  show "agent_calls (new_events w (snd (startVetConvoAI w))) =
           (if responded_ok cleanup then [Delay 1000] else []) @
           [Fetch (PostStart ch (field td ''token''))]"
    using assms by (cases "body_json conflict") (simp_all add: run)
  show "fst (startVetConvoAI w) = Inr False"
    using assms by (cases "body_json conflict") (simp_all add: run)
qed


text \<open>
  C1, as stated: every run in which the create call fails with a conflict performs one
  cleanup-and-retry cycle. When the 409 response names no agent, the handler sends no
  stop call and no second create request, and returns \<^verbatim>\<open>false\<close>.
\<close>

theorem startVetConvoAI_conflict_counterexample:
  "agent_calls
     (new_events
        (ready_to_start\<lparr>inbox := [token_reply, cleaned_reply, conflict_reply (JObj [(''reason'', JStr ''TaskConflict'')])]\<rparr>)
        (snd (startVetConvoAI
           (ready_to_start\<lparr>inbox := [token_reply, cleaned_reply, conflict_reply (JObj [(''reason'', JStr ''TaskConflict'')])]\<rparr>))))
     = [Delay 1000, Fetch (PostStart ''vet-triage'' (JStr ''tok''))]
   \<and> fst (startVetConvoAI
        (ready_to_start\<lparr>inbox := [token_reply, cleaned_reply, conflict_reply (JObj [(''reason'', JStr ''TaskConflict'')])]\<rparr>))
     = Inr False"
proof -
  let ?w = "ready_to_start\<lparr>inbox := [token_reply, cleaned_reply, conflict_reply (JObj [(''reason'', JStr ''TaskConflict'')])]\<rparr>"
  have "client ?w" "channel ?w = Some ''vet-triage''" "''vet-triage'' \<noteq> []"
    "inbox ?w = Responds (ok_response (JObj [(''token'', JStr ''tok'')])) # cleaned_reply #
       Responds (error_response 409 (JObj [(''reason'', JStr ''TaskConflict'')])) # []"
    "body_json (ok_response (JObj [(''token'', JStr ''tok'')])) = Some (JObj [(''token'', JStr ''tok'')])"
    "JObj [(''token'', JStr ''tok'')] \<noteq> JNull" "JObj [(''token'', JStr ''tok'')] \<noteq> JUndefined"
    "status (error_response 409 (JObj [(''reason'', JStr ''TaskConflict'')])) = 409"
    "\<not> truthy (field (payload (Responds (error_response 409 (JObj [(''reason'', JStr ''TaskConflict'')])))) ''agent_id'')"
    by (simp_all add: ready_to_start_def initial_world_def token_reply_def conflict_reply_def
          ok_response_def error_response_def payload_def)
  note run = conflict_without_id_run [OF this]
  from run(1) run(2) show ?thesis
    by (simp add: responded_ok_def cleaned_reply_def ok_response_def ok_def)
qed

text \<open>
  C1, amended. In a run of \<open>startVetConvoAI\<close> whose create request is answered 409: when the
  response body is JSON carrying a non-empty \<^verbatim>\<open>agent_id\<close>, the handler sends the leave
  request for that agent. If the fetch of that request is fulfilled, with any response, the
  handler performs exactly one cleanup-and-retry cycle: it waits 2000 ms and sends the
  create request exactly once more; the result of the start is then the outcome of that
  single retry, so a failed retry returns \<^verbatim>\<open>false\<close> with no further create request. If the
  fetch of the leave request is rejected, no wait and no second create request follow and
  the start returns \<^verbatim>\<open>false\<close>. When the response names no agent, no stop call and no retry
  are made and the start returns \<^verbatim>\<open>false\<close>. (The only earlier wait is the 1000 ms after an
  OK answer of the preliminary cleanup.)
\<close>

theorem startVetConvoAI_conflict_retry:
  assumes "client w" "channel w = Some ch" "ch \<noteq> []"
    and "inbox w = Responds tok # cleanup # Responds conflict # later"
    and "body_json tok = Some td" "td \<noteq> JNull" "td \<noteq> JUndefined"
    and "status conflict = 409"
  shows "(\<forall>stop retry rest.
            later = stop # retry # rest \<and> stop \<noteq> Rejects
            \<and> truthy (field (payload (Responds conflict)) ''agent_id'') \<longrightarrow>
              agent_calls (new_events w (snd (startVetConvoAI w))) =
                (if responded_ok cleanup then [Delay 1000] else []) @
                [Fetch (PostStart ch (field td ''token'')),
                 Fetch (PostLeave (field (payload (Responds conflict)) ''agent_id'')),
                 Delay 2000,
                 Fetch (PostStart ch (field td ''token''))]
              \<and> fst (startVetConvoAI w) = Inr (usable retry))
       \<and> (\<forall>rest.
            later = Rejects # rest
            \<and> truthy (field (payload (Responds conflict)) ''agent_id'') \<longrightarrow>
              agent_calls (new_events w (snd (startVetConvoAI w))) =
                (if responded_ok cleanup then [Delay 1000] else []) @
                [Fetch (PostStart ch (field td ''token'')),
                 Fetch (PostLeave (field (payload (Responds conflict)) ''agent_id''))]
              \<and> fst (startVetConvoAI w) = Inr False)
       \<and> (\<not> truthy (field (payload (Responds conflict)) ''agent_id'') \<longrightarrow>
              agent_calls (new_events w (snd (startVetConvoAI w))) =
                (if responded_ok cleanup then [Delay 1000] else []) @
                [Fetch (PostStart ch (field td ''token''))]
              \<and> fst (startVetConvoAI w) = Inr False)"
proof (intro conjI allI impI)
  fix stop retry rest
  assume h: "later = stop # retry # rest \<and> stop \<noteq> Rejects
            \<and> truthy (field (payload (Responds conflict)) ''agent_id'')"
  then obtain ed where ed: "body_json conflict = Some ed" "payload (Responds conflict) = ed"
    by (cases "body_json conflict") (simp_all add: payload_def)
  have inbox: "inbox w = Responds tok # cleanup # Responds conflict # stop # retry # rest"
    using assms(4) h by simp
  have id: "truthy (field ed ''agent_id'')"
    using h ed by simp
  have stop: "stop \<noteq> Rejects"
    using h by simp
  note run = conflict_retry_run [OF assms(1-3) inbox assms(5-8) ed(1) id stop]
  show "agent_calls (new_events w (snd (startVetConvoAI w))) =
                (if responded_ok cleanup then [Delay 1000] else []) @
                [Fetch (PostStart ch (field td ''token'')),
                 Fetch (PostLeave (field (payload (Responds conflict)) ''agent_id'')),
                 Delay 2000,
                 Fetch (PostStart ch (field td ''token''))]"
    by (simp add: run(1) ed(2) agent_calls_append agent_calls_cleanup)
  show "fst (startVetConvoAI w) = Inr (usable retry)"
    by (rule run(2))
next
  fix rest
  assume h: "later = Rejects # rest
            \<and> truthy (field (payload (Responds conflict)) ''agent_id'')"
  then obtain ed where ed: "body_json conflict = Some ed" "payload (Responds conflict) = ed"
    by (cases "body_json conflict") (simp_all add: payload_def)
  have inbox: "inbox w = Responds tok # cleanup # Responds conflict # Rejects # rest"
    using assms(4) h by simp
  have id: "truthy (field ed ''agent_id'')"
    using h ed by simp
  note run = conflict_stop_rejected_run [OF assms(1-3) inbox assms(5-8) ed(1) id]
  show "agent_calls (new_events w (snd (startVetConvoAI w))) =
                (if responded_ok cleanup then [Delay 1000] else []) @
                [Fetch (PostStart ch (field td ''token'')),
                 Fetch (PostLeave (field (payload (Responds conflict)) ''agent_id''))]"
    by (simp add: run(1) ed(2) agent_calls_append agent_calls_cleanup)
  show "fst (startVetConvoAI w) = Inr False"
    by (rule run(2))
next
  assume "\<not> truthy (field (payload (Responds conflict)) ''agent_id'')"
  note run = conflict_without_id_run [OF assms this]
  show "agent_calls (new_events w (snd (startVetConvoAI w))) =
                (if responded_ok cleanup then [Delay 1000] else []) @
                [Fetch (PostStart ch (field td ''token''))]"
    by (rule run(1))
  show "fst (startVetConvoAI w) = Inr False"
    by (rule run(2))
qed

theorem startVetConvoAI_conflict_retry_witness:
  "agent_calls
     (new_events
        (ready_to_start\<lparr>inbox := [token_reply, cleaned_reply,
            conflict_reply (JObj [(''agent_id'', JStr ''old-agent'')]),
            cleaned_reply,
            conflict_reply (JObj [(''agent_id'', JStr ''old-agent'')])]\<rparr>)
        (snd (startVetConvoAI
           (ready_to_start\<lparr>inbox := [token_reply, cleaned_reply,
              conflict_reply (JObj [(''agent_id'', JStr ''old-agent'')]),
              cleaned_reply,
              conflict_reply (JObj [(''agent_id'', JStr ''old-agent'')])]\<rparr>))))
     = [Delay 1000,
        Fetch (PostStart ''vet-triage'' (JStr ''tok'')),
        Fetch (PostLeave (JStr ''old-agent'')),
        Delay 2000,
        Fetch (PostStart ''vet-triage'' (JStr ''tok''))]
   \<and> fst (startVetConvoAI
        (ready_to_start\<lparr>inbox := [token_reply, cleaned_reply,
            conflict_reply (JObj [(''agent_id'', JStr ''old-agent'')]),
            cleaned_reply,
            conflict_reply (JObj [(''agent_id'', JStr ''old-agent'')])]\<rparr>))
     = Inr False
   \<and> agent_calls
     (new_events
        (ready_to_start\<lparr>inbox := [token_reply, Rejects, conflict_reply JNull]\<rparr>)
        (snd (startVetConvoAI
           (ready_to_start\<lparr>inbox := [token_reply, Rejects, conflict_reply JNull]\<rparr>))))
     = [Fetch (PostStart ''vet-triage'' (JStr ''tok''))]
   \<and> fst (startVetConvoAI
        (ready_to_start\<lparr>inbox := [token_reply, Rejects, conflict_reply JNull]\<rparr>))
     = Inr False
   \<and> agent_calls
     (new_events
        (ready_to_start\<lparr>inbox := [token_reply, cleaned_reply,
            conflict_reply (JObj [(''agent_id'', JStr ''old-agent'')]),
            Rejects, started_reply ''new-agent'']\<rparr>)
        (snd (startVetConvoAI
           (ready_to_start\<lparr>inbox := [token_reply, cleaned_reply,
              conflict_reply (JObj [(''agent_id'', JStr ''old-agent'')]),
              Rejects, started_reply ''new-agent'']\<rparr>))))
     = [Delay 1000,
        Fetch (PostStart ''vet-triage'' (JStr ''tok'')),
        Fetch (PostLeave (JStr ''old-agent''))]
   \<and> fst (startVetConvoAI
        (ready_to_start\<lparr>inbox := [token_reply, cleaned_reply,
            conflict_reply (JObj [(''agent_id'', JStr ''old-agent'')]),
            Rejects, started_reply ''new-agent'']\<rparr>))
     = Inr False"
proof -
  let ?w = "ready_to_start\<lparr>inbox := [token_reply, cleaned_reply,
            conflict_reply (JObj [(''agent_id'', JStr ''old-agent'')]),
            cleaned_reply,
            conflict_reply (JObj [(''agent_id'', JStr ''old-agent'')])]\<rparr>"
  let ?v = "ready_to_start\<lparr>inbox := [token_reply, Rejects, conflict_reply JNull]\<rparr>"
  have w: "client ?w" "channel ?w = Some ''vet-triage''" "''vet-triage'' \<noteq> []"
    "inbox ?w = Responds (ok_response (JObj [(''token'', JStr ''tok'')])) # cleaned_reply #
       Responds (error_response 409 (JObj [(''agent_id'', JStr ''old-agent'')])) #
       [cleaned_reply, conflict_reply (JObj [(''agent_id'', JStr ''old-agent'')])]"
    "body_json (ok_response (JObj [(''token'', JStr ''tok'')])) = Some (JObj [(''token'', JStr ''tok'')])"
    "JObj [(''token'', JStr ''tok'')] \<noteq> JNull" "JObj [(''token'', JStr ''tok'')] \<noteq> JUndefined"
    "status (error_response 409 (JObj [(''agent_id'', JStr ''old-agent'')])) = 409"
    by (simp_all add: ready_to_start_def initial_world_def token_reply_def conflict_reply_def
          ok_response_def error_response_def)
  let ?u = "ready_to_start\<lparr>inbox := [token_reply, cleaned_reply,
            conflict_reply (JObj [(''agent_id'', JStr ''old-agent'')]),
            Rejects, started_reply ''new-agent'']\<rparr>"
  have u: "client ?u" "channel ?u = Some ''vet-triage''" "''vet-triage'' \<noteq> []"
    "inbox ?u = Responds (ok_response (JObj [(''token'', JStr ''tok'')])) # cleaned_reply #
       Responds (error_response 409 (JObj [(''agent_id'', JStr ''old-agent'')])) #
       [Rejects, started_reply ''new-agent'']"
    "body_json (ok_response (JObj [(''token'', JStr ''tok'')])) = Some (JObj [(''token'', JStr ''tok'')])"
    "JObj [(''token'', JStr ''tok'')] \<noteq> JNull" "JObj [(''token'', JStr ''tok'')] \<noteq> JUndefined"
    "status (error_response 409 (JObj [(''agent_id'', JStr ''old-agent'')])) = 409"
    by (simp_all add: ready_to_start_def initial_world_def token_reply_def conflict_reply_def
          ok_response_def error_response_def)
  have v: "client ?v" "channel ?v = Some ''vet-triage''" "''vet-triage'' \<noteq> []"
    "inbox ?v = Responds (ok_response (JObj [(''token'', JStr ''tok'')])) # Rejects #
       Responds (error_response 409 JNull) # []"
    "body_json (ok_response (JObj [(''token'', JStr ''tok'')])) = Some (JObj [(''token'', JStr ''tok'')])"
    "JObj [(''token'', JStr ''tok'')] \<noteq> JNull" "JObj [(''token'', JStr ''tok'')] \<noteq> JUndefined"
    "status (error_response 409 JNull) = 409"
    by (simp_all add: ready_to_start_def initial_world_def token_reply_def conflict_reply_def
          ok_response_def error_response_def)
  from startVetConvoAI_conflict_retry [OF w] startVetConvoAI_conflict_retry [OF v]
    startVetConvoAI_conflict_retry [OF u]
  show ?thesis
    by (simp add: payload_def usable_def responded_ok_def cleaned_reply_def conflict_reply_def
          ok_response_def error_response_def ok_def)
qed

text \<open>
  C9. In a run of \<open>startVetConvoAI\<close> whose first create request is answered with a conflict
  naming an agent, and whose single retry succeeds, \<^verbatim>\<open>agoraConvoTaskID\<close> is assigned exactly
  once, with the \<^verbatim>\<open>agent_id\<close> of the retry's response, which is the handle the session
  holds afterwards; the id named by the conflict appears only in the leave request.
\<close>

theorem startVetConvoAI_single_handle:
  assumes "client w" "channel w = Some ch" "ch \<noteq> []"
    and "inbox w = Responds tok # cleanup # Responds conflict # stop # retry # rest"
    and "body_json tok = Some td" "td \<noteq> JNull" "td \<noteq> JUndefined"
    and "status conflict = 409"
    and "body_json conflict = Some ed" "truthy (field ed ''agent_id'')"
    and "stop \<noteq> Rejects"
    and "usable retry"
  shows "fst (startVetConvoAI w) = Inr True
       \<and> assignments (new_events w (snd (startVetConvoAI w))) = [field (payload retry) ''agent_id'']
       \<and> agoraConvoTaskID (snd (startVetConvoAI w)) = field (payload retry) ''agent_id''
       \<and> requests_of (new_events w (snd (startVetConvoAI w))) =
           [GetToken ch ''10001'' ''publisher'', PostCleanup ch,
            PostStart ch (field td ''token''), PostLeave (field ed ''agent_id''),
            PostStart ch (field td ''token'')]"
proof -
  note run = conflict_retry_run [OF assms(1-11)]
  show ?thesis
    using assms(12)
    by (simp add: run assignments_append assignments_cleanup requests_of_append
          requests_of_cleanup)
qed

theorem startVetConvoAI_single_handle_witness:
  "fst (startVetConvoAI
        (ready_to_start\<lparr>inbox := [token_reply, cleaned_reply,
            conflict_reply (JObj [(''agent_id'', JStr ''old-agent'')]),
            cleaned_reply, started_reply ''new-agent'']\<rparr>)) = Inr True
   \<and> assignments
       (new_events
          (ready_to_start\<lparr>inbox := [token_reply, cleaned_reply,
              conflict_reply (JObj [(''agent_id'', JStr ''old-agent'')]),
              cleaned_reply, started_reply ''new-agent'']\<rparr>)
          (snd (startVetConvoAI
             (ready_to_start\<lparr>inbox := [token_reply, cleaned_reply,
                conflict_reply (JObj [(''agent_id'', JStr ''old-agent'')]),
                cleaned_reply, started_reply ''new-agent'']\<rparr>))))
       = [JStr ''new-agent'']
   \<and> agoraConvoTaskID
       (snd (startVetConvoAI
          (ready_to_start\<lparr>inbox := [token_reply, cleaned_reply,
              conflict_reply (JObj [(''agent_id'', JStr ''old-agent'')]),
              cleaned_reply, started_reply ''new-agent'']\<rparr>)))
       = JStr ''new-agent''"
proof -
  let ?w = "ready_to_start\<lparr>inbox := [token_reply, cleaned_reply,
            conflict_reply (JObj [(''agent_id'', JStr ''old-agent'')]),
            cleaned_reply, started_reply ''new-agent'']\<rparr>"
  have "client ?w" "channel ?w = Some ''vet-triage''" "''vet-triage'' \<noteq> []"
    "inbox ?w = Responds (ok_response (JObj [(''token'', JStr ''tok'')])) # cleaned_reply #
       Responds (error_response 409 (JObj [(''agent_id'', JStr ''old-agent'')])) #
       cleaned_reply # started_reply ''new-agent'' # []"
    "body_json (ok_response (JObj [(''token'', JStr ''tok'')])) = Some (JObj [(''token'', JStr ''tok'')])"
    "JObj [(''token'', JStr ''tok'')] \<noteq> JNull" "JObj [(''token'', JStr ''tok'')] \<noteq> JUndefined"
    "status (error_response 409 (JObj [(''agent_id'', JStr ''old-agent'')])) = 409"
    "body_json (error_response 409 (JObj [(''agent_id'', JStr ''old-agent'')])) =
       Some (JObj [(''agent_id'', JStr ''old-agent'')])"
    "truthy (field (JObj [(''agent_id'', JStr ''old-agent'')]) ''agent_id'')"
    "cleaned_reply \<noteq> Rejects"
    "usable (started_reply ''new-agent'')"
    by (simp_all add: ready_to_start_def initial_world_def token_reply_def conflict_reply_def
          cleaned_reply_def started_reply_def ok_response_def error_response_def usable_def
          responded_ok_def payload_def ok_def)
  from startVetConvoAI_single_handle [OF this]
  show ?thesis
    by (simp add: payload_def started_reply_def ok_response_def)
qed

section \<open>The token endpoint\<close>

lemma parseInt_undefined:
  "parseInt (code_units ''undefined'') = NaN"
  by (simp add: parseInt_def code_units_def is_space_def is_digit_def digit_val_def)

text \<open>
  White space beyond ASCII is skipped, and an integer that a double does not hold is not
  given an exact value.
\<close>

lemma parseInt_skips_no_break_space:
  "parseInt (0xA0 # code_units ''42'') = Integer 42"
  by (simp add: parseInt_def code_units_def is_space_def is_digit_def digit_val_def
        to_number_def)

lemma parseInt_beyond_exact_range:
  "parseInt (code_units ''9007199254740993'') = Rounded"
  by (simp add: parseInt_def code_units_def is_space_def is_digit_def digit_val_def
        to_number_def)

text \<open>
  A missing or empty app id or certificate gives the single reply 500; the handler has no
  loop and calls no builder then.
\<close>

lemma api_token_missing_credentials:
  "absent_or_empty (AGORA_APPID env) \<or> absent_or_empty (AGORA_APPCERTIFICATE env) \<Longrightarrow>
     api_token build env now_ms q =
       Reply 500 (JObj [(''error'', JStr ''Missing Agora credentials'')])"
  by (auto simp: api_token_def absent_or_empty_def split: option.splits)

text \<open>
  C7. A request for channel \<^verbatim>\<open>vet-triage\<close>, uid 10001 and role publisher that the
  configured server receives at 1700000000.123 s of the epoch is answered 200 with the
  token built for exactly that channel, uid and role; the value the handler passes as the
  builder's expiry argument is 1700003600, the time of the request plus 3600 seconds as
  a point on the epoch clock, not a lifetime of 3600 seconds.
\<close>

theorem api_token_passes_absolute_expiry:
  "api_token build configured 1700000000123
     \<lparr>q_channelName = Some ''vet-triage'', q_uid = Some (code_units ''10001''),
      q_role = Some ''publisher''\<rparr>
   = Reply 200 (JObj [(''token'', JStr (build \<lparr>
       arg_appId = ''app'',
       arg_appCertificate = ''cert'',
       arg_channelName = ''vet-triage'',
       arg_uid = Integer 10001,
       arg_role = PUBLISHER,
       arg_privilegeExpiredTs = 1700003600\<rparr>))])"
proof -
  have p: "parseInt (code_units ''10001'') = Integer 10001"
    by (simp add: parseInt_def code_units_def is_space_def is_digit_def digit_val_def
          to_number_def)
  have e: "(1700000000123::nat) div 1000 + 3600 = 1700003600"
    by simp
  show ?thesis
    by (simp add: api_token_def configured_def p e)
qed

text \<open>
  C10. For a token request with a non-empty channel name, on a server whose app id and
  certificate are set, the endpoint always answers 200 with a token, whatever the role
  and uid parameters are: the role is subscriber only for exactly \<^verbatim>\<open>subscriber\<close> and
  publisher otherwise, and the participant id is 0 when the uid is absent or when
  \<^verbatim>\<open>parseInt\<close> gives \<^verbatim>\<open>NaN\<close> or zero for it, and the number \<^verbatim>\<open>parseInt\<close> gives otherwise.
\<close>

theorem api_token_accepts_any_role_and_uid:
  "AGORA_APPID env = Some appId \<and> appId \<noteq> [] \<and>
   AGORA_APPCERTIFICATE env = Some appCertificate \<and> appCertificate \<noteq> [] \<and>
   q_channelName q = Some channelName \<and> channelName \<noteq> [] \<longrightarrow>
     api_token build env now_ms q =
       Reply 200 (JObj [(''token'', JStr (build \<lparr>
         arg_appId = appId,
         arg_appCertificate = appCertificate,
         arg_channelName = channelName,
         arg_uid = uid_or_zero (q_uid q),
         arg_role = (if q_role q = Some ''subscriber'' then SUBSCRIBER else PUBLISHER),
         arg_privilegeExpiredTs = now_ms div 1000 + 3600\<rparr>))])
     \<and> (q_uid q = None \<longrightarrow> uid_or_zero (q_uid q) = Integer 0)
     \<and> (\<forall>u. q_uid q = Some u \<longrightarrow>
           uid_or_zero (q_uid q) = (if parseInt u = NaN then Integer 0 else parseInt u))"
proof -
  have z: "or_zero x = (if x = NaN then Integer 0 else x)" for x
    by (cases x) simp_all
  show ?thesis
    by (auto simp: api_token_def uid_or_zero_def parseInt_undefined z Let_def
          split: option.splits)
qed

theorem api_token_accepts_any_role_and_uid_witness:
  "api_token sample_builder configured 1700000000123
     \<lparr>q_channelName = Some ''vet-triage'', q_uid = Some (code_units ''abc''),
      q_role = Some ''admin''\<rparr>
     = Reply 200 (JObj [(''token'', JStr ''vet-triage/0/pub/1700003600'')])
   \<and> api_token sample_builder configured 1700000000123
     \<lparr>q_channelName = Some ''vet-triage'', q_uid = None, q_role = None\<rparr>
     = Reply 200 (JObj [(''token'', JStr ''vet-triage/0/pub/1700003600'')])
   \<and> api_token sample_builder configured 1700000000123
     \<lparr>q_channelName = Some ''vet-triage'', q_uid = Some (0xA0 # code_units ''42''),
      q_role = Some ''subscriber''\<rparr>
     = Reply 200 (JObj [(''token'', JStr ''vet-triage/42/sub/1700003600'')])"
proof -
  have s: "string_of_nat 0 = ''0''" "string_of_nat 42 = ''42''"
      "string_of_nat 1700003600 = ''1700003600''"
    by (simp_all add: string_of_nat.simps digit_char_def)
  have p: "parseInt (code_units ''abc'') = NaN"
    by (simp add: parseInt_def code_units_def is_space_def is_digit_def digit_val_def)
  have e: "(1700000000123::nat) div 1000 + 3600 = 1700003600"
    by simp
  show ?thesis
    using api_token_accepts_any_role_and_uid [of configured "''app''" "''cert''"
        "\<lparr>q_channelName = Some ''vet-triage'', q_uid = Some (code_units ''abc''),
          q_role = Some ''admin''\<rparr>"
        "''vet-triage''" sample_builder 1700000000123]
      api_token_accepts_any_role_and_uid [of configured "''app''" "''cert''"
        "\<lparr>q_channelName = Some ''vet-triage'', q_uid = None, q_role = None\<rparr>"
        "''vet-triage''" sample_builder 1700000000123]
      api_token_accepts_any_role_and_uid [of configured "''app''" "''cert''"
        "\<lparr>q_channelName = Some ''vet-triage'', q_uid = Some (0xA0 # code_units ''42''),
          q_role = Some ''subscriber''\<rparr>"
        "''vet-triage''" sample_builder 1700000000123]
    by (simp add: configured_def sample_builder_def show_number_def uid_or_zero_def s p e
          parseInt_skips_no_break_space)
qed

section \<open>The triage summary\<close>

lemma generateTriageSummary_failure:
  assumes "analysis_fails w"
  shows "generateTriageSummary rs w =
           (Inr (fallback_summary (clock w) (petInfo w) rs),
            w\<lparr>trace := trace w @ [Fetch (PostAnalyze (joined_answers rs) rs),
                                   ConsoleError Error_generating_triage_summary],
              inbox := tl (inbox w)\<rparr>)"
  using assms
  by (auto simp: generateTriageSummary_def analysis_fails_def joined_answers_def steps Let_def
        split: list.splits fetch_result.splits option.splits)

lemma generateTriageSummary_returns: "\<exists>v. fst (generateTriageSummary rs w) = Inr v"
  by (auto simp: generateTriageSummary_def steps Let_def
        split: list.splits fetch_result.splits option.splits)

lemma fallback_fields:
  "field (fallback_summary now pet rs) ''urgencyLevel'' = JStr ''Medium''"
  "field (fallback_summary now pet rs) ''urgencyReason'' =
     JStr ''Unable to analyze - recommend veterinary consultation''"
  "field (fallback_summary now pet rs) ''recommendations'' =
     JArr [JStr ''Contact your veterinarian for proper assessment'']"
  by (simp_all add: fallback_summary_def)

text \<open>The indices of a spread array come first among the keys of the result.\<close>

lemma spread_array_indices_first:
  "map fst (spread [(''timestamp'', JNum 0)] (JArr [JStr ''a'', JStr ''b'']))
     = [''0'', ''1'', ''timestamp'']"
proof -
  have e: "own_entries (JArr [JStr ''a'', JStr ''b'']) = [(''0'', JStr ''a''), (''1'', JStr ''b'')]"
    by (simp add: upt_conv_Cons string_of_nat.simps digit_char_def del: upt_Suc)
  have a: "array_index ''0'' = Some 0" "array_index ''1'' = Some 1"
      "array_index ''timestamp'' = None"
    by (simp_all add: array_index_def is_digit_def digit_val_def)
  show ?thesis
    unfolding spread_def e by (simp add: property_order_def a)
qed

text \<open>
  C2, as stated: whenever the analysis result is malformed the fallback summary is
  returned. An OK response whose JSON body is not an analysis is merged into the summary
  as it is, and the summary has no urgency level.
\<close>

theorem generateTriageSummary_malformed_counterexample:
  "fst (generateTriageSummary []
          (initial_world\<lparr>inbox := [Responds (ok_response (JObj [(''message'', JStr ''no analysis'')]))]\<rparr>))
     = Inr (JObj [(''timestamp'', JNum 0), (''petInfo'', JNull), (''responses'', JArr []),
                  (''message'', JStr ''no analysis'')])
   \<and> field (JObj [(''timestamp'', JNum 0), (''petInfo'', JNull), (''responses'', JArr []),
                  (''message'', JStr ''no analysis'')]) ''urgencyLevel'' = JUndefined"
  by (simp add: generateTriageSummary_def steps Let_def initial_world_def ok_response_def ok_def
        spread_def property_order_def array_index_def is_digit_def digit_val_def)

text \<open>
  C2, amended. For every list of turns \<open>generateTriageSummary\<close> never throws. If the
  analysis call fails because the fetch rejects, the response is not OK, or the body is
  not JSON, it returns, with no further request, the fallback summary, which is
  determined by the clock, the pet and the turns: its urgency level is Medium, its reason
  says the analysis could not be made and its recommendation is to contact a
  veterinarian.
\<close>

theorem generateTriageSummary_fallback:
  "(\<exists>v. fst (generateTriageSummary rs w) = Inr v)
   \<and> (analysis_fails w \<longrightarrow>
        fst (generateTriageSummary rs w) = Inr (fallback_summary (clock w) (petInfo w) rs)
        \<and> new_events w (snd (generateTriageSummary rs w)) =
            [Fetch (PostAnalyze (joined_answers rs) rs),
             ConsoleError Error_generating_triage_summary])
   \<and> field (fallback_summary (clock w) (petInfo w) rs) ''urgencyLevel'' = JStr ''Medium''
   \<and> field (fallback_summary (clock w) (petInfo w) rs) ''urgencyReason'' =
        JStr ''Unable to analyze - recommend veterinary consultation''
   \<and> field (fallback_summary (clock w) (petInfo w) rs) ''recommendations'' =
        JArr [JStr ''Contact your veterinarian for proper assessment'']"
  using generateTriageSummary_returns [of rs w]
  by (simp add: generateTriageSummary_failure fallback_fields new_events_def)

theorem generateTriageSummary_fallback_witness:
  "analysis_fails (initial_world\<lparr>inbox := [Rejects]\<rparr>)
   \<and> analysis_fails (initial_world\<lparr>inbox := [Responds (error_response 500 JNull)]\<rparr>)
   \<and> fst (generateTriageSummary [] (initial_world\<lparr>inbox := [Rejects]\<rparr>))
       = Inr (fallback_summary 0 JNull [])
   \<and> fst (generateTriageSummary [] (initial_world\<lparr>inbox := [Responds (error_response 500 JNull)]\<rparr>))
       = Inr (fallback_summary 0 JNull [])
   \<and> field (fallback_summary 0 JNull []) ''urgencyLevel'' = JStr ''Medium''"
  using generateTriageSummary_fallback [of "[]" "initial_world\<lparr>inbox := [Rejects]\<rparr>"]
    generateTriageSummary_fallback [of "[]" "initial_world\<lparr>inbox := [Responds (error_response 500 JNull)]\<rparr>"]
  by (simp add: analysis_fails_def initial_world_def error_response_def ok_def)

section \<open>The listening window\<close>

lemma checkAudio_bounded: "fst (checkAudio q v sc fs) \<le> TIMEOUT_MS"
  by (induction q v sc fs rule: checkAudio.induct) auto

lemma checkAudio_sentinel:
  "snd (checkAudio q v sc fs) = timeout_response q \<or> snd (checkAudio q v sc fs) = voice_response q"
  by (induction q v sc fs rule: checkAudio.induct) auto

lemma checkAudio_no_voice:
  "\<forall>f \<in> set fs. \<not> voice_threshold_exceeded (snd f) \<Longrightarrow>
   checkAudio q False sc fs = (TIMEOUT_MS, timeout_response q)"
  by (induction q "False" sc fs rule: checkAudio.induct) auto

text \<open>
  After a voice burst the window resolves on the 51st silent frame in a row, whatever
  the time that frame arrives at.
\<close>

lemma checkAudio_silence:
  assumes "\<forall>f \<in> set fs. fst f < TIMEOUT_MS \<and> \<not> voice_threshold_exceeded (snd f)"
    and "sc \<le> 50" and "50 - sc < length fs"
  shows "checkAudio q True sc fs = (fst (fs ! (50 - sc)), voice_response q)"
  using assms
proof (induction fs arbitrary: sc)
  case Nil
  then show ?case by simp
next
  case (Cons f fs)
  obtain t d where f: "f = (t, d)" by (cases f)
  show ?case
  proof (cases "sc = 50")
    case True
    with Cons.prems f show ?thesis by simp
  next
    case False
    with Cons.prems have sc: "Suc sc \<le> 50" "50 - Suc sc < length fs" by auto
    have "checkAudio q True (Suc sc) fs = (fst (fs ! (50 - Suc sc)), voice_response q)"
      using Cons.IH [OF _ sc] Cons.prems(1) by simp
    moreover have "50 - sc = Suc (50 - Suc sc)"
      using sc by simp
    ultimately show ?thesis
      using Cons.prems f False by simp
  qed
qed

lemma listen_bounded: "fst (listen a win q) \<le> TIMEOUT_MS"
  by (simp add: listen_def checkAudio_bounded)

text \<open>A window that runs to the timeout resolves with the timeout sentinel.\<close>

lemma checkAudio_expiry:
  "fst (checkAudio q v sc fs) = TIMEOUT_MS \<Longrightarrow> snd (checkAudio q v sc fs) = timeout_response q"
  by (induction q v sc fs rule: checkAudio.induct) (auto split: if_splits)

lemma listen_expiry:
  "fst (listen a win q) = TIMEOUT_MS \<Longrightarrow> snd (listen a win q) = timeout_response q"
  using checkAudio_expiry [of q False 0 "frames win"] by (auto simp: listen_def)

text \<open>
  C8, at a 60 Hz display. A voice burst as the window opens is followed by silence; the
  window resolves with the voice-completed value 850 ms later, after 0.85 seconds of
  low energy, where the claim has it wait for about 5 seconds of low energy or for the
  15 second timeout.
\<close>

theorem waitForUserResponse_60Hz_resolves_early:
  "listen True \<lparr>monitor_throws = False, frames = burst_then_silence_60Hz\<rparr> 1
     = (850, ''Voice response completed for question 1'')"
proof -
  let ?qs = "map (\<lambda>k. (k * 50 div 3, silent_frame)) [1..<52]"
  have quiet: "\<forall>f \<in> set ?qs. fst f < TIMEOUT_MS \<and> \<not> voice_threshold_exceeded (snd f)"
    by (auto simp: TIMEOUT_MS_def voice_threshold_exceeded_def silent_frame_def sum_list_replicate)
  have run: "checkAudio 1 True 0 ?qs = (fst (?qs ! (50 - 0)), voice_response 1)"
    by (rule checkAudio_silence [OF quiet]) simp_all
  have last: "fst (?qs ! 50) = 850"
    by (simp add: nth_map)
  have loud: "voice_threshold_exceeded loud_frame"
    by (simp add: voice_threshold_exceeded_def loud_frame_def bufferLength_def sum_list_replicate)
  have words: "voice_response 1 = ''Voice response completed for question 1''"
    by (simp add: voice_response_def string_of_nat.simps digit_char_def)
  show ?thesis
    using run last loud words
    by (simp add: listen_def burst_then_silence_60Hz_def TIMEOUT_MS_def)
qed

section \<open>The questioning sequence\<close>

lemma list_all_tl: "list_all P xs \<Longrightarrow> list_all P (tl xs)"
  by (cases xs) simp_all

lemma audio_playback_ends:
  "list_all (\<lambda>ended. ended) (playbacks w) \<Longrightarrow>
   audio_playback w = (Inr (), w\<lparr>trace := trace w @ [Play], playbacks := tl (playbacks w)\<rparr>)"
  by (cases "playbacks w") (simp_all add: audio_playback_def Let_def)

lemma playOpenAITTS_ends:
  assumes "every_playback_ends w"
  shows "playOpenAITTS t w = (Inr (), after_tts t w)"
    and "responses (after_tts t w) = responses w"
    and "audioTrack (after_tts t w) = audioTrack w"
    and "windows (after_tts t w) = windows w"
    and "every_playback_ends (after_tts t w)"
proof -
  have p: "list_all (\<lambda>ended. ended) (playbacks w)"
    using assms by (simp add: every_playback_ends_def)
  have "fst (playOpenAITTS t w) = Inr ()
      \<and> responses (snd (playOpenAITTS t w)) = responses w
      \<and> audioTrack (snd (playOpenAITTS t w)) = audioTrack w
      \<and> windows (snd (playOpenAITTS t w)) = windows w
      \<and> list_all (\<lambda>ended. ended) (playbacks (snd (playOpenAITTS t w)))"
    using p
    by (cases t)
       (auto simp: playOpenAITTS_def playTTSMessage_def steps audio_playback_ends list_all_tl
          split: list.splits fetch_result.splits)
  then show "playOpenAITTS t w = (Inr (), after_tts t w)"
    and "responses (after_tts t w) = responses w"
    and "audioTrack (after_tts t w) = audioTrack w"
    and "windows (after_tts t w) = windows w"
    and "every_playback_ends (after_tts t w)"
    by (cases "playOpenAITTS t w"; simp add: after_tts_def every_playback_ends_def)+
qed


lemma after_tts_fields [simp]:
  "responses (after_tts t w) = responses w"
  "audioTrack (after_tts t w) = audioTrack w"
  "windows (after_tts t w) = windows w"
  unfolding after_tts_def
  by (cases t; cases "playbacks w";
      auto simp: playOpenAITTS_def playTTSMessage_def steps audio_playback_def Let_def
        split: list.splits fetch_result.splits)+

lemma after_tts_playbacks:
  "list_all (\<lambda>ended. ended) (playbacks w) \<Longrightarrow>
   list_all (\<lambda>ended. ended) (playbacks (after_tts t w))"
  using playOpenAITTS_ends(5) [of w t] by (simp add: every_playback_ends_def)

lemma tts_bind:
  "list_all (\<lambda>ended. ended) (playbacks w) \<Longrightarrow>
   bind_js (playOpenAITTS t) f w = f () (after_tts t w)"
  using playOpenAITTS_ends(1) [of w t] by (simp add: every_playback_ends_def bind_js_def)

lemma wait_eq: "waitForUserResponse i w = (Inr (heard i w), after_wait i w)"
  by (simp add: waitForUserResponse_def heard_def after_wait_def Let_def)

lemma wait_bind: "bind_js (waitForUserResponse i) f w = f (heard i w) (after_wait i w)"
  by (simp add: bind_js_def wait_eq)

lemma after_wait_fields [simp]:
  "responses (after_wait i w) = responses w"
  "audioTrack (after_wait i w) = audioTrack w"
  "playbacks (after_wait i w) = playbacks w"
  "windows (after_wait i w) = tl (windows w)"
  by (simp_all add: after_wait_def waitForUserResponse_def Let_def)

lemma push_bind:
  "bind_js (push_response question response) f w =
     f () (w\<lparr>responses := responses w @
        [\<lparr>t_question = question, t_timestamp = clock w, t_response = response\<rparr>]\<rparr>)"
  by (simp add: bind_js_def push_response_def)

lemma heard_sentinel: "heard i w = timeout_response i \<or> heard i w = voice_response i"
  using checkAudio_sentinel [of i False 0] by (auto simp: heard_def listen_def)

lemma heard_without_track: "audioTrack w = None \<Longrightarrow> heard i w = timeout_response i"
  by (simp add: heard_def listen_def)

lemmas ask = question_step_def steps tts_bind wait_bind push_bind after_tts_playbacks heard_def

lemma question_step_introduces:
  assumes "list_all (\<lambda>ended. ended) (playbacks w)"
  shows "question_step 0 q w = (Inr (), after_step 0 q w)"
    and "responses (after_step 0 q w) = responses w"
    and "audioTrack (after_step 0 q w) = audioTrack w"
    and "windows (after_step 0 q w) = windows w"
    and "list_all (\<lambda>ended. ended) (playbacks (after_step 0 q w))"
proof -
  have "fst (question_step 0 q w) = Inr ()"
    using assms by (simp add: ask)
  then show "question_step 0 q w = (Inr (), after_step 0 q w)"
    by (cases "question_step 0 q w") (simp add: after_step_def)
  show "responses (after_step 0 q w) = responses w"
    using assms by (simp add: after_step_def ask)
  show "audioTrack (after_step 0 q w) = audioTrack w"
    using assms by (simp add: after_step_def ask)
  show "windows (after_step 0 q w) = windows w"
    using assms by (simp add: after_step_def ask)
  show "list_all (\<lambda>ended. ended) (playbacks (after_step 0 q w))"
    using assms by (simp add: after_step_def ask)
qed

lemma question_step_asks:
  assumes "list_all (\<lambda>ended. ended) (playbacks w)" and "0 < i"
  shows "question_step i q w = (Inr (), after_step i q w)"
    and "map t_question (responses (after_step i q w)) = map t_question (responses w) @ [q]"
    and "map t_response (responses (after_step i q w)) = map t_response (responses w) @ [heard i w]"
    and "audioTrack (after_step i q w) = audioTrack w"
    and "list_all (\<lambda>ended. ended) (playbacks (after_step i q w))"
proof -
  have "fst (question_step i q w) = Inr ()"
    using assms by (simp add: ask)
  then show "question_step i q w = (Inr (), after_step i q w)"
    by (cases "question_step i q w") (simp add: after_step_def)
  show "map t_question (responses (after_step i q w)) = map t_question (responses w) @ [q]"
    using assms by (simp add: after_step_def ask)
  show "map t_response (responses (after_step i q w)) = map t_response (responses w) @ [heard i w]"
    using assms by (simp add: after_step_def ask)
  show "audioTrack (after_step i q w) = audioTrack w"
    using assms by (simp add: after_step_def ask)
  show "list_all (\<lambda>ended. ended) (playbacks (after_step i q w))"
    using assms by (simp add: after_step_def ask)
qed

lemma question_loop_asks:
  assumes "list_all (\<lambda>ended. ended) (playbacks w)" and "0 < i"
  shows "fst (question_loop i qs w) = Inr ()
       \<and> map t_question (responses (snd (question_loop i qs w))) = map t_question (responses w) @ qs
       \<and> map t_response (responses (snd (question_loop i qs w))) =
           map t_response (responses w) @ heard_from i qs w"
  using assms
proof (induction qs arbitrary: i w)
  case Nil
  show ?case by (simp add: ret_apply)
next
  case (Cons q qs)
  note step = question_step_asks [OF Cons.prems, of q]
  have u: "question_loop i (q # qs) w = question_loop (Suc i) qs (after_step i q w)"
    using step(1) by (simp add: bind_js_def)
  note IH = Cons.IH [OF step(5) zero_less_Suc]
  show ?case
    unfolding u using IH step(2,3) by simp
qed

lemma heard_from_sentinels: "sentinels_from i (heard_from i qs w)"
  using heard_sentinel by (induction qs arbitrary: i w) simp_all

lemma heard_from_without_track:
  assumes "list_all (\<lambda>ended. ended) (playbacks w)" and "0 < i" and "audioTrack w = None"
  shows "heard_from i qs w = map timeout_response [i..<i + length qs]"
  using assms
proof (induction qs arbitrary: i w)
  case Nil
  then show ?case by simp
next
  case (Cons q qs)
  note step = question_step_asks [OF Cons.prems(1,2), of q]
  have none: "audioTrack (after_step i q w) = None"
    using step(4) Cons.prems(3) by simp
  have "heard_from (Suc i) qs (after_step i q w) = map timeout_response [Suc i..<Suc i + length qs]"
    by (rule Cons.IH [OF step(5) zero_less_Suc none])
  moreover have "[i..<i + length (q # qs)] = i # [Suc i..<Suc i + length qs]"
    using upt_conv_Cons [of i "i + length (q # qs)"] by (simp del: upt_Suc)
  ultimately show ?case
    using heard_without_track [OF Cons.prems(3), of i] by (simp del: upt_Suc)
qed

lemma after_wait_inbox [simp]: "inbox (after_wait i w) = inbox w"
  by (simp add: after_wait_def waitForUserResponse_def Let_def)

lemma bind_playback:
  "bind_js audio_playback f w =
     (case playbacks w of
        [] \<Rightarrow> f () (w\<lparr>trace := trace w @ [Play], playbacks := []\<rparr>)
      | ended # rest \<Rightarrow>
          if ended then f () (w\<lparr>trace := trace w @ [Play], playbacks := rest\<rparr>)
          else (Inl (Error ''Audio playback error''), w\<lparr>trace := trace w @ [Play], playbacks := rest\<rparr>))"
  by (simp add: bind_js_def audio_playback_def Let_def split: list.splits)

lemma prompts_not_blank:
  "dropWhile (\<lambda>c. is_space (of_char c)) INTRODUCTION \<noteq> []"
  "dropWhile (\<lambda>c. is_space (of_char c)) QUESTION_1 \<noteq> []"
  "dropWhile (\<lambda>c. is_space (of_char c)) QUESTION_2 \<noteq> []"
  "dropWhile (\<lambda>c. is_space (of_char c)) QUESTION_3 \<noteq> []"
  "dropWhile (\<lambda>c. is_space (of_char c)) QUESTION_4 \<noteq> []"
  "dropWhile (\<lambda>c. is_space (of_char c)) QUESTION_5 \<noteq> []"
  "dropWhile (\<lambda>c. is_space (of_char c)) THANK_YOU \<noteq> []"
  "INTRODUCTION \<noteq> []" "QUESTION_1 \<noteq> []" "QUESTION_2 \<noteq> []" "QUESTION_3 \<noteq> []"
  "QUESTION_4 \<noteq> []" "QUESTION_5 \<noteq> []" "THANK_YOU \<noteq> []"
  by (simp_all add: INTRODUCTION_def QUESTION_1_def QUESTION_2_def QUESTION_3_def
        QUESTION_4_def QUESTION_5_def THANK_YOU_def is_space_def)

text \<open>
  C4. In the session in which the speech endpoint answers and the introduction plays but
  the playback of the first question is rejected, the sequence runs to its end and
  captures four turns, for the questions 2 to 5: the rejection leaves \<open>playOpenAITTS\<close>
  uncaught, since the playback promise is returned without being awaited inside the
  \<^verbatim>\<open>try\<close>, the catch of the loop body logs it, and question 1 gets neither a browser
  speech fallback nor a listening window nor a turn.
\<close>

theorem question_loop_skips_unplayable_question:
  "fst (question_loop 0 QUESTIONS (first_question_unplayable\<lparr>responses := []\<rparr>)) = Inr ()
   \<and> map t_question (responses (loop_result first_question_unplayable))
     = [QUESTION_2, QUESTION_3, QUESTION_4, QUESTION_5]
   \<and> length (responses (loop_result first_question_unplayable)) = 4"
proof -
  let ?w0 = "first_question_unplayable\<lparr>responses := []\<rparr>"
  let ?w1 = "after_step 0 INTRODUCTION ?w0"
  let ?w2 = "after_step (Suc 0) QUESTION_1 ?w1"
  note run = question_step_def playOpenAITTS_def playTTSMessage_def steps bind_playback
    prompts_not_blank
  have w0: "inbox first_question_unplayable = [Responds (ok_response JNull), Responds (ok_response JNull)]"
    "playbacks first_question_unplayable = [True, False]"
    by (simp_all add: first_question_unplayable_def initial_world_def)
  have ok: "ok (ok_response JNull)"
    by (simp add: ok_response_def ok_def)
  have s0: "fst (question_step 0 INTRODUCTION ?w0) = Inr ()"
    "inbox ?w1 = [Responds (ok_response JNull)]" "playbacks ?w1 = [False]" "responses ?w1 = []"
    unfolding after_step_def by (simp_all add: run w0 ok del: dropWhile_eq_Nil_conv)
  have s1: "fst (question_step (Suc 0) QUESTION_1 ?w1) = Inr ()"
    "playbacks ?w2 = []" "responses ?w2 = []"
    unfolding after_step_def [of "Suc 0"] by (simp_all add: run s0 ok del: dropWhile_eq_Nil_conv)
  have e0: "question_step 0 INTRODUCTION ?w0 = (Inr (), ?w1)"
    using s0(1) by (cases "question_step 0 INTRODUCTION ?w0") (simp add: after_step_def)
  have e1: "question_step (Suc 0) QUESTION_1 ?w1 = (Inr (), ?w2)"
    using s1(1) by (cases "question_step (Suc 0) QUESTION_1 ?w1") (simp add: after_step_def)
  have u: "question_loop 0 QUESTIONS ?w0 =
          question_loop (Suc (Suc 0)) [QUESTION_2, QUESTION_3, QUESTION_4, QUESTION_5] ?w2"
    by (simp add: QUESTIONS_def bind_js_def e0 e1)
  have rest: "fst (question_loop (Suc (Suc 0)) [QUESTION_2, QUESTION_3, QUESTION_4, QUESTION_5] ?w2) = Inr ()
      \<and> map t_question
      (responses (snd (question_loop (Suc (Suc 0)) [QUESTION_2, QUESTION_3, QUESTION_4, QUESTION_5] ?w2)))
      = map t_question (responses ?w2) @ [QUESTION_2, QUESTION_3, QUESTION_4, QUESTION_5]"
    using question_loop_asks [of ?w2 "Suc (Suc 0)" "[QUESTION_2, QUESTION_3, QUESTION_4, QUESTION_5]"]
    by (simp add: s1(2))
  have a: "fst (question_loop 0 QUESTIONS ?w0) = Inr ()"
    using rest by (simp only: u)
  have b: "map t_question (responses (loop_result first_question_unplayable))
     = [QUESTION_2, QUESTION_3, QUESTION_4, QUESTION_5]"
    using rest by (simp add: loop_result_def u s1(3))
  have c: "length (responses (loop_result first_question_unplayable)) = 4"
    using arg_cong [OF b, of length] by simp
  from a b c show ?thesis
    by (intro conjI)
qed


lemma one_to_five: "[Suc 0..<Suc 0 + length [a, b, c, d, e]] = [1, 2, 3, 4, 5]"
  by (simp add: upt_conv_Cons del: upt_Suc)

text \<open>
  When no speech playback is rejected the loop ends normally and the captured responses
  are exactly five turns, one for each of the questions 1 to 5 in that order with no gap,
  whatever the speech endpoint answers: a rejected or failed speech request falls back to
  browser speech. The response of the turn for question k is the sentinel of question k,
  the timeout sentinel or the voice-completed one, and it is the timeout sentinel for
  every question when no microphone track is held.
\<close>

lemma question_loop_five_turns:
  "every_playback_ends w \<longrightarrow>
     fst (question_loop 0 QUESTIONS (w\<lparr>responses := []\<rparr>)) = Inr ()
     \<and> map t_question (responses (loop_result w)) =
         [QUESTION_1, QUESTION_2, QUESTION_3, QUESTION_4, QUESTION_5]
     \<and> length (responses (loop_result w)) = 5
     \<and> sentinels_from 1 (map t_response (responses (loop_result w)))
     \<and> (audioTrack w = None \<longrightarrow>
          map t_response (responses (loop_result w)) = map timeout_response [1, 2, 3, 4, 5])"
proof
  assume "every_playback_ends w"
  let ?w0 = "w\<lparr>responses := []\<rparr>"
  let ?w1 = "after_step 0 INTRODUCTION ?w0"
  let ?qs = "[QUESTION_1, QUESTION_2, QUESTION_3, QUESTION_4, QUESTION_5]"
  have p: "list_all (\<lambda>ended. ended) (playbacks ?w0)"
    using \<open>every_playback_ends w\<close> by (simp add: every_playback_ends_def)
  note intro = question_step_introduces [OF p, of INTRODUCTION]
  have u: "question_loop 0 QUESTIONS ?w0 = question_loop (Suc 0) ?qs ?w1"
    using intro(1) by (simp add: QUESTIONS_def bind_js_def)
  have loop: "fst (question_loop (Suc 0) ?qs ?w1) = Inr ()
       \<and> map t_question (responses (snd (question_loop (Suc 0) ?qs ?w1))) =
           map t_question (responses ?w1) @ ?qs
       \<and> map t_response (responses (snd (question_loop (Suc 0) ?qs ?w1))) =
           map t_response (responses ?w1) @ heard_from (Suc 0) ?qs ?w1"
    by (rule question_loop_asks [OF intro(5) zero_less_Suc])
  have empty: "responses ?w1 = []"
    using intro(2) by simp
  have a: "fst (question_loop 0 QUESTIONS ?w0) = Inr ()"
    using loop by (simp only: u)
  have b: "map t_question (responses (loop_result w)) = ?qs"
    using loop by (simp add: loop_result_def u empty)
  have c: "map t_response (responses (loop_result w)) = heard_from (Suc 0) ?qs ?w1"
    using loop by (simp add: loop_result_def u empty)
  have d: "length (responses (loop_result w)) = 5"
    using arg_cong [OF b, of length] by simp
  have e: "sentinels_from 1 (map t_response (responses (loop_result w)))"
    using heard_from_sentinels [of "Suc 0" ?qs ?w1] by (simp only: c One_nat_def)
  have f: "audioTrack w = None \<longrightarrow>
          map t_response (responses (loop_result w)) = map timeout_response [1, 2, 3, 4, 5]"
  proof
    assume "audioTrack w = None"
    then have none: "audioTrack ?w1 = None"
      using intro(3) by simp
    show "map t_response (responses (loop_result w)) = map timeout_response [1, 2, 3, 4, 5]"
      using heard_from_without_track [where i = "Suc 0" and qs = ?qs and w = ?w1,
          OF intro(5) zero_less_Suc none]
      by (simp only: c one_to_five)
  qed
  from a b d e f
  show "fst (question_loop 0 QUESTIONS (w\<lparr>responses := []\<rparr>)) = Inr ()
     \<and> map t_question (responses (loop_result w)) =
         [QUESTION_1, QUESTION_2, QUESTION_3, QUESTION_4, QUESTION_5]
     \<and> length (responses (loop_result w)) = 5
     \<and> sentinels_from 1 (map t_response (responses (loop_result w)))
     \<and> (audioTrack w = None \<longrightarrow>
          map t_response (responses (loop_result w)) = map timeout_response [1, 2, 3, 4, 5])"
    by (intro conjI)
qed

text \<open>
  In the initial session every speech request is rejected and no microphone is held: each
  prompt is spoken by the browser and each question gets its turn.
\<close>

lemma question_loop_five_turns_offline:
  "every_playback_ends initial_world
   \<and> audioTrack initial_world = None
   \<and> map t_question (responses (loop_result initial_world)) =
       [QUESTION_1, QUESTION_2, QUESTION_3, QUESTION_4, QUESTION_5]
   \<and> map t_response (responses (loop_result initial_world)) =
       [''Response received for question 1'', ''Response received for question 2'',
        ''Response received for question 3'', ''Response received for question 4'',
        ''Response received for question 5'']"
  using question_loop_five_turns [of initial_world]
  by (simp add: every_playback_ends_def initial_world_def timeout_response_def
        string_of_nat.simps digit_char_def)

end
